theory Spec2Isabelle
  imports Complex_Main
begin

section \<open>JavaScript values as the server sees them\<close>

text \<open>
  The server (\<^verbatim>\<open>src/enhanced-stdio-server.ts\<close>) reads one JSON text per line, hands
  the parsed value to \<^verbatim>\<open>handleRequest\<close> without validating it (the parameters are typed
  \<^verbatim>\<open>any\<close>), and writes one JSON text per response. A parsed value is a \<open>json\<close>; the
  JavaScript value \<^verbatim>\<open>undefined\<close> (a property that is absent) is \<open>None\<close> of \<open>json option\<close>.
  Objects are association lists in insertion order, read with \<open>map_of\<close>. Numbers are
  rationals: every finite double is one. Strings are \<open>string\<close>: a \<open>char\<close> stands for a
  code unit below 256.
\<close>

datatype json =
    JNull
  | JBool bool
  | JNum rat
  | JStr string
  | JArr "json list"
  | JObj "(string \<times> json) list"

type_synonym jsval = "json option"

text \<open>
  A thrown value: an instance of \<^verbatim>\<open>Error\<close> with its message (the \<^verbatim>\<open>TypeError\<close>s the engine
  raises are such instances; their message texts are V8's), or any other value, of which the
  code only tests \<^verbatim>\<open>instanceof Error\<close>.
\<close>

datatype js_exn = JsError string | NonError

definition LF :: char where "LF = CHR 0x0A"
definition CR :: char where "CR = CHR 0x0D"

text \<open>JavaScript truthiness (\<^verbatim>\<open>if (v)\<close>, \<^verbatim>\<open>!v\<close>, \<^verbatim>\<open>a || b\<close>, \<^verbatim>\<open>a && b\<close>) with a default
  that is defined (\<^verbatim>\<open>a || d\<close>), and \<^verbatim>\<open>a ?? d\<close>.\<close>

fun truthy :: "jsval \<Rightarrow> bool" where
  "truthy None = False"
| "truthy (Some JNull) = False"
| "truthy (Some (JBool b)) = b"
| "truthy (Some (JNum r)) = (r \<noteq> 0)"
| "truthy (Some (JStr s)) = (s \<noteq> [])"
| "truthy (Some (JArr xs)) = True"
| "truthy (Some (JObj kvs)) = True"

definition or_default :: "jsval \<Rightarrow> json \<Rightarrow> json" where
  "or_default a d = (case a of None \<Rightarrow> d | Some v \<Rightarrow> if truthy a then v else d)"

fun nullish_default :: "jsval \<Rightarrow> json \<Rightarrow> json" where
  "nullish_default None d = d"
| "nullish_default (Some JNull) d = d"
| "nullish_default (Some v) d = v"

text \<open>
  Reading a property \<^verbatim>\<open>v.k\<close>: a \<^verbatim>\<open>TypeError\<close> on \<^verbatim>\<open>undefined\<close> and \<^verbatim>\<open>null\<close>, the own
  property on an object. None of the names this program reads is a property of
  \<^verbatim>\<open>Object.prototype\<close>, of a string, a number or a boolean, and only \<^verbatim>\<open>filter\<close> is one of
  an array (see \<open>listModels\<close>), so every other read is \<^verbatim>\<open>undefined\<close>. \<open>opt_prop\<close> is the
  optional chain \<^verbatim>\<open>v?.k\<close>.
\<close>

fun get_prop :: "jsval \<Rightarrow> string \<Rightarrow> js_exn + jsval" where
  "get_prop None k =
     Inl (JsError (''Cannot read properties of undefined (reading '' @ [CHR 0x27] @ k @ [CHR 0x27] @ '')''))"
| "get_prop (Some JNull) k =
     Inl (JsError (''Cannot read properties of null (reading '' @ [CHR 0x27] @ k @ [CHR 0x27] @ '')''))"
| "get_prop (Some (JObj kvs)) k = Inr (map_of kvs k)"
| "get_prop (Some v) k = Inr None"

fun opt_prop :: "jsval \<Rightarrow> string \<Rightarrow> jsval" where
  "opt_prop (Some (JObj kvs)) k = map_of kvs k"
| "opt_prop v k = None"

subsection \<open>Number to string\<close>

text \<open>
  \<^verbatim>\<open>Number::toString\<close> (ECMA-262, radix 10). A \<^verbatim>\<open>JNum\<close> holds the rational that the shortest
  decimal reading back as the double denotes, so the digits the algorithm asks for are the
  digits of that decimal: with \<open>s\<close> the digit string without its trailing zeros, \<open>k\<close> its
  length and \<open>n\<close> the position of the decimal point (the value is \<open>0.s \<times> 10\<^sup>n\<close>), the number
  prints as an integer when \<open>k \<le> n \<le> 21\<close>, with a point inside when \<open>0 < n \<le> 21\<close>, as
  \<^verbatim>\<open>0.00ddd\<close> when \<open>-6 < n \<le> 0\<close>, and with an exponent (\<^verbatim>\<open>1e+21\<close>, \<^verbatim>\<open>1.2e-7\<close>) otherwise.
  \<open>decimal_scale\<close> finds the number of decimal places from the powers of 2 and 5 in the
  denominator; a rational with another prime in its denominator is no such decimal and is cut
  there.
\<close>

definition digit_char :: "nat \<Rightarrow> char" where
  "digit_char d = ''0123456789'' ! (d mod 10)"

function digits :: "int \<Rightarrow> string" where
  "digits n = (if n < 10 then [digit_char (nat n)] else digits (n div 10) @ [digit_char (nat (n mod 10))])"
  by pat_completeness auto
termination
  by (relation "measure nat") auto

declare digits.simps [simp del]

function factor_count :: "int \<Rightarrow> int \<Rightarrow> nat" where
  "factor_count p q = (if 1 < p \<and> 0 < q \<and> q mod p = 0 then Suc (factor_count p (q div p)) else 0)"
  by pat_completeness auto
termination
  by (relation "measure (\<lambda>(p, q). nat q)") (auto simp: int_div_less_self)

declare factor_count.simps [simp del]

definition decimal_scale :: "rat \<Rightarrow> int \<times> nat" where
  "decimal_scale a =
     (let q = snd (quotient_of a);
          m = max (factor_count 2 q) (factor_count 5 q)
      in (\<lfloor>a * 10 ^ m\<rfloor>, m))"

definition positive_str :: "rat \<Rightarrow> string" where
  "positive_str a =
     (let (s, m) = decimal_scale a;
          all = digits s;
          ds = rev (dropWhile (\<lambda>c. c = CHR ''0'') (rev all));
          k = int (length ds);
          n = int (length all) - int m
      in if k \<le> n \<and> n \<le> 21 then ds @ replicate (nat (n - k)) CHR ''0''
         else if 0 < n \<and> n \<le> 21 then take (nat n) ds @ ''.'' @ drop (nat n) ds
         else if - 6 < n \<and> n \<le> 0 then ''0.'' @ replicate (nat (- n)) CHR ''0'' @ ds
         else (if k = 1 then ds else take 1 ds @ ''.'' @ drop 1 ds)
              @ ''e'' @ (if n - 1 < 0 then ''-'' else ''+'') @ digits \<bar>n - 1\<bar>)"

definition num_str :: "rat \<Rightarrow> string" where
  "num_str r =
     (if r = 0 then ''0'' else if r < 0 then ''-'' @ positive_str (- r) else positive_str r)"

subsection \<open>Conversion to string (template literals, property keys)\<close>

fun commas :: "string list \<Rightarrow> string" where
  "commas [] = []"
| "commas [x] = x"
| "commas (x # y # ys) = x @ '','' @ commas (y # ys)"

fun sequence :: "(js_exn + 'a) list \<Rightarrow> js_exn + 'a list" where
  "sequence [] = Inr []"
| "sequence (Inl e # rs) = Inl e"
| "sequence (Inr x # rs) = (case sequence rs of Inl e \<Rightarrow> Inl e | Inr xs \<Rightarrow> Inr (x # xs))"

text \<open>
  \<^verbatim>\<open>ToString\<close> of a parsed value. An array joins its elements with commas (\<^verbatim>\<open>null\<close> gives
  the empty string). An object goes through \<^verbatim>\<open>OrdinaryToPrimitive\<close>: an own property
  \<^verbatim>\<open>toString\<close> of a parsed object is never callable and shadows the inherited method, and
  \<^verbatim>\<open>valueOf\<close> gives no primitive, so the conversion raises a \<^verbatim>\<open>TypeError\<close>; otherwise
  \<^verbatim>\<open>Object.prototype.toString\<close> answers.
\<close>

fun toString_js :: "json \<Rightarrow> js_exn + string" where
  "toString_js JNull = Inr ''null''"
| "toString_js (JBool b) = Inr (if b then ''true'' else ''false'')"
| "toString_js (JNum r) = Inr (num_str r)"
| "toString_js (JStr s) = Inr s"
| "toString_js (JArr xs) =
     (case sequence (map (\<lambda>x. if x = JNull then Inr [] else toString_js x) xs) of
        Inl e \<Rightarrow> Inl e
      | Inr ss \<Rightarrow> Inr (commas ss))"
| "toString_js (JObj kvs) =
     (if ''toString'' \<in> fst ` set kvs
      then Inl (JsError ''Cannot convert object to primitive value'')
      else Inr ''[object Object]'')"

fun toString_val :: "jsval \<Rightarrow> js_exn + string" where
  "toString_val None = Inr ''undefined''"
| "toString_val (Some v) = toString_js v"

subsection \<open>JSON.stringify\<close>

definition hex_char :: "nat \<Rightarrow> char" where
  "hex_char d = ''0123456789abcdef'' ! (d mod 16)"

definition escape_char :: "char \<Rightarrow> string" where
  "escape_char c =
     (if c = CHR 0x22 then [CHR 0x5C, CHR 0x22]
      else if c = CHR 0x5C then [CHR 0x5C, CHR 0x5C]
      else if c = CHR 0x08 then [CHR 0x5C, CHR ''b'']
      else if c = CHR 0x0C then [CHR 0x5C, CHR ''f'']
      else if c = CHR 0x0A then [CHR 0x5C, CHR ''n'']
      else if c = CHR 0x0D then [CHR 0x5C, CHR ''r'']
      else if c = CHR 0x09 then [CHR 0x5C, CHR ''t'']
      else if (of_char c :: nat) < 32
        then [CHR 0x5C, CHR ''u'', CHR ''0'', CHR ''0'',
              hex_char (of_char c div 16), hex_char (of_char c mod 16)]
      else [c])"

definition quote :: "string \<Rightarrow> string" where
  "quote s = [CHR 0x22] @ concat (map escape_char s) @ [CHR 0x22]"

text \<open>\<^verbatim>\<open>JSON.stringify(v)\<close>: the compact form, on one line.\<close>

fun stringify :: "json \<Rightarrow> string" where
  "stringify JNull = ''null''"
| "stringify (JBool b) = (if b then ''true'' else ''false'')"
| "stringify (JNum r) = num_str r"
| "stringify (JStr s) = quote s"
| "stringify (JArr xs) = ''['' @ commas (map stringify xs) @ '']''"
| "stringify (JObj kvs) =
     ''{'' @ commas (map (\<lambda>kv. quote (fst kv) @ '':'' @ stringify (snd kv)) kvs) @ ''}''"

text \<open>\<^verbatim>\<open>JSON.stringify(v, null, 2)\<close>: the indented form, \<open>n\<close> the nesting depth.\<close>

definition indent :: "nat \<Rightarrow> string" where
  "indent n = replicate (2 * n) CHR '' ''"

fun lines_of :: "string list \<Rightarrow> string" where
  "lines_of [] = []"
| "lines_of [x] = x"
| "lines_of (x # y # ys) = x @ '','' @ [LF] @ lines_of (y # ys)"

fun stringify2 :: "nat \<Rightarrow> json \<Rightarrow> string" where
  "stringify2 n JNull = ''null''"
| "stringify2 n (JBool b) = (if b then ''true'' else ''false'')"
| "stringify2 n (JNum r) = num_str r"
| "stringify2 n (JStr s) = quote s"
| "stringify2 n (JArr xs) =
     (if xs = [] then ''[]''
      else ''['' @ [LF] @ lines_of (map (\<lambda>x. indent (Suc n) @ stringify2 (Suc n) x) xs)
           @ [LF] @ indent n @ '']'')"
| "stringify2 n (JObj kvs) =
     (if kvs = [] then ''{}''
      else ''{'' @ [LF]
           @ lines_of (map (\<lambda>kv. indent (Suc n) @ quote (fst kv) @ '': '' @ stringify2 (Suc n) (snd kv)) kvs)
           @ [LF] @ indent n @ ''}'')"

text \<open>
  An object literal whose property values may be \<^verbatim>\<open>undefined\<close>. The server's objects
  are only ever serialised, and \<^verbatim>\<open>JSON.stringify\<close> leaves such properties out.
\<close>

definition obj :: "(string \<times> jsval) list \<Rightarrow> json" where
  "obj kvs = JObj (concat (map (\<lambda>kv. case snd kv of None \<Rightarrow> [] | Some v \<Rightarrow> [(fst kv, v)]) kvs))"

section \<open>The model table\<close>

record model_info =
  description :: string
  features :: "string list"
  contextWindow :: nat
  maxOutputTokens :: "nat option"
  thinking :: bool
  thinkingLevels :: "string list option"

definition GEMINI_MODELS :: "(string \<times> model_info) list" where
  "GEMINI_MODELS =
    [(''gemini-3-pro-preview'',
        \<lparr>description = ''Most capable reasoning model, state-of-the-art multimodal and agentic'',
         features = [''thinking'', ''function_calling'', ''json_mode'', ''grounding'', ''system_instructions''],
         contextWindow = 1048576, maxOutputTokens = Some 65536,
         thinking = True, thinkingLevels = Some [''low'', ''high'']\<rparr>),
     (''gemini-3-flash-preview'',
        \<lparr>description = ''Best balance of speed, scale, and frontier intelligence'',
         features = [''thinking'', ''function_calling'', ''json_mode'', ''grounding'', ''system_instructions''],
         contextWindow = 1048576, maxOutputTokens = Some 65536,
         thinking = True, thinkingLevels = Some [''minimal'', ''low'', ''medium'', ''high'']\<rparr>),
     (''gemini-2.5-pro'',
        \<lparr>description = ''Previous generation thinking model, complex reasoning and coding'',
         features = [''thinking'', ''function_calling'', ''json_mode'', ''grounding'', ''system_instructions''],
         contextWindow = 2000000, maxOutputTokens = None,
         thinking = True, thinkingLevels = None\<rparr>),
     (''gemini-2.5-flash'',
        \<lparr>description = ''Previous generation fast thinking model'',
         features = [''thinking'', ''function_calling'', ''json_mode'', ''grounding'', ''system_instructions''],
         contextWindow = 1000000, maxOutputTokens = None,
         thinking = True, thinkingLevels = None\<rparr>),
     (''gemini-2.5-flash-lite'',
        \<lparr>description = ''Previous generation ultra-fast, cost-efficient thinking model'',
         features = [''thinking'', ''function_calling'', ''json_mode'', ''system_instructions''],
         contextWindow = 1000000, maxOutputTokens = None,
         thinking = True, thinkingLevels = None\<rparr>)]"

text \<open>A table entry as the object \<^verbatim>\<open>JSON.stringify\<close> sees, properties in source order.\<close>

definition info_fields :: "model_info \<Rightarrow> (string \<times> jsval) list" where
  "info_fields info =
    [(''description'', Some (JStr (description info))),
     (''features'', Some (JArr (map JStr (features info)))),
     (''contextWindow'', Some (JNum (of_nat (contextWindow info)))),
     (''maxOutputTokens'', map_option (\<lambda>n. JNum (of_nat n)) (maxOutputTokens info)),
     (''thinking'', Some (JBool (thinking info))),
     (''thinkingLevels'', map_option (\<lambda>ls. JArr (map JStr ls)) (thinkingLevels info))]"

definition GEMINI_MODELS_json :: json where
  "GEMINI_MODELS_json = JObj (map (\<lambda>kv. (fst kv, obj (info_fields (snd kv)))) GEMINI_MODELS)"

text \<open>
  \<^verbatim>\<open>GEMINI_MODELS[key]\<close> and \<^verbatim>\<open>key in GEMINI_MODELS\<close> see the prototype chain too: the table
  is a plain object, so the property names of \<^verbatim>\<open>Object.prototype\<close> give a (truthy) value
  that is no table entry.
\<close>

definition Object_prototype_keys :: "string list" where
  "Object_prototype_keys =
    [''constructor'', ''__defineGetter__'', ''__defineSetter__'', ''hasOwnProperty'',
     ''__lookupGetter__'', ''__lookupSetter__'', ''isPrototypeOf'', ''propertyIsEnumerable'',
     ''toString'', ''valueOf'', ''__proto__'', ''toLocaleString'']"

datatype model_lookup = OwnModel model_info | Inherited | Missing

definition lookup_model :: "string \<Rightarrow> model_lookup" where
  "lookup_model key =
     (case map_of GEMINI_MODELS key of
        Some info \<Rightarrow> OwnModel info
      | None \<Rightarrow> if key \<in> set Object_prototype_keys then Inherited else Missing)"

text \<open>
  What the process is started with: the environment variable for the default model, and the
  descriptive tables and help texts, which the router passes through unchanged. They are
  static data (\<^verbatim>\<open>getAvailableTools\<close>, \<^verbatim>\<open>getAvailableResources\<close>, \<^verbatim>\<open>getAvailablePrompts\<close>,
  the template strings of \<^verbatim>\<open>handleResourceRead\<close>, \<^verbatim>\<open>getHelpContent\<close> and \<^verbatim>\<open>getHelp\<close>) and
  are taken as parameters.
\<close>

record statics =
  GEMINI_DEFAULT_MODEL :: "string option"
  availableTools :: json
  availableResources :: json
  availablePrompts :: json
  capabilitiesText :: string
  helpOverview :: string
  helpTools :: string
  helpParameters :: string
  helpExamples :: string
  helpModels :: string
  helpQuickStart :: string

definition DEFAULT_MODEL :: "statics \<Rightarrow> string" where
  "DEFAULT_MODEL S =
     (case GEMINI_DEFAULT_MODEL S of
        None \<Rightarrow> ''gemini-3-pro-preview''
      | Some envModel \<Rightarrow>
          if envModel \<noteq> [] \<and> lookup_model envModel \<noteq> Missing then envModel
          else ''gemini-3-pro-preview'')"

text \<open>The names of the six tools that \<^verbatim>\<open>getAvailableTools\<close> describes.\<close>

definition registered_tools :: "string list" where
  "registered_tools =
     [''generate_text'', ''analyze_image'', ''count_tokens'', ''list_models'', ''embed_text'', ''get_help'']"

section \<open>The provider, the process state, responses\<close>

text \<open>A part of a content: \<^verbatim>\<open>{text}\<close>, \<^verbatim>\<open>{inlineData: {mimeType, data}}\<close>, or a variable left
  \<^verbatim>\<open>undefined\<close>.\<close>

datatype part = TextPart jsval | InlineData string string | NoPart

record content =
  parts :: "part list"
  role :: string

datatype provider_call =
    GenerateContent json "content list" "json option"
  | CountTokens json "content list"
  | EmbedContent json jsval

text \<open>
  What the provider answers to the call a request makes, if it makes one: a rejection or a
  result. Of a result the server reads \<^verbatim>\<open>text\<close>, \<^verbatim>\<open>usageMetadata?.totalTokenCount\<close> and the
  candidates' \<^verbatim>\<open>finishReason\<close>; \<^verbatim>\<open>totalTokens\<close>; the first embedding's \<^verbatim>\<open>values\<close>.
\<close>

record generated =
  r_text :: "string option"
  r_totalTokenCount :: "rat option"
  r_candidates :: "jsval list option"

record answers =
  on_generateContent :: "js_exn + generated"
  on_countTokens :: "js_exn + rat option"
  on_embedContent :: "js_exn + rat list option"

datatype diag =
    HandlingRequest jsval
  | NotificationReceived string
  | FailedToParse
  | ErrorIn string js_exn
  | ImageBase64Length string
  | MimeTypeAndLength string nat
  | RawBase64

text \<open>
  \<open>conversations\<close> is the \<^verbatim>\<open>Map\<close> of the class, \<open>stdout\<close> the chunks written with
  \<^verbatim>\<open>process.stdout.write\<close>, \<open>stderr\<close> what \<^verbatim>\<open>console.error\<close> printed, \<open>provider_calls\<close>
  the calls made to the SDK, all in order.
\<close>

record world =
  conversations :: "json \<Rightarrow> content list option"
  stdout :: "string list"
  stderr :: "diag list"
  provider_calls :: "provider_call list"

definition console_error :: "diag \<Rightarrow> world \<Rightarrow> world" where
  "console_error d w = w\<lparr>stderr := stderr w @ [d]\<rparr>"

definition call_provider :: "provider_call \<Rightarrow> world \<Rightarrow> world" where
  "call_provider c w = w\<lparr>provider_calls := provider_calls w @ [c]\<rparr>"

text \<open>
  A \<^verbatim>\<open>Map\<close> compares keys with SameValueZero: strings, numbers and booleans by value, arrays
  and objects by identity. A parsed array or object is a fresh one, so it is never found, and
  what is stored under it is never read again.
\<close>

fun by_value :: "json \<Rightarrow> bool" where
  "by_value (JArr xs) = False"
| "by_value (JObj kvs) = False"
| "by_value v = True"

definition conversations_get :: "world \<Rightarrow> json \<Rightarrow> content list option" where
  "conversations_get w k = (if by_value k then conversations w k else None)"

definition conversations_set :: "json \<Rightarrow> content list \<Rightarrow> world \<Rightarrow> world" where
  "conversations_set k h w =
     (if by_value k then w\<lparr>conversations := (conversations w)(k \<mapsto> h)\<rparr> else w)"

datatype body = Result json | Error int string

datatype response = Response (resp_id: jsval) (resp_body: body)

definition response_json :: "response \<Rightarrow> json" where
  "response_json r =
     obj [(''jsonrpc'', Some (JStr ''2.0'')),
          (''id'', resp_id r),
          (case resp_body r of
             Result v \<Rightarrow> (''result'', Some v)
           | Error code message \<Rightarrow>
               (''error'', Some (JObj [(''code'', JNum (of_int code)), (''message'', JStr message)])))]"

definition sendResponse :: "response \<Rightarrow> world \<Rightarrow> world" where
  "sendResponse r w = w\<lparr>stdout := stdout w @ [stringify (response_json r) @ [LF]]\<rparr>"

text \<open>\<^verbatim>\<open>error instanceof Error ? error.message : fallback\<close>\<close>

fun message_or :: "string \<Rightarrow> js_exn \<Rightarrow> string" where
  "message_or fallback (JsError m) = m"
| "message_or fallback NonError = fallback"

definition text_content :: "string \<Rightarrow> json" where
  "text_content t = JArr [JObj [(''type'', JStr ''text''), (''text'', JStr t)]]"

definition tool_error :: "jsval \<Rightarrow> string \<Rightarrow> response" where
  "tool_error i t = Response i (Result (JObj [(''content'', text_content t), (''isError'', JBool True)]))"

section \<open>The tools\<close>

definition user_content :: "jsval \<Rightarrow> content" where
  "user_content t = \<lparr>parts = [TextPart t], role = ''user''\<rparr>"

definition model_content :: "string \<Rightarrow> content" where
  "model_content t = \<lparr>parts = [TextPart (Some (JStr t))], role = ''model''\<rparr>"

text \<open>\<^verbatim>\<open>this.conversations.get(id) || []\<close>\<close>

definition history_of :: "world \<Rightarrow> jsval \<Rightarrow> content list" where
  "history_of w conversationId =
     (case conversationId of
        None \<Rightarrow> []
      | Some k \<Rightarrow> (case conversations_get w k of None \<Rightarrow> [] | Some h \<Rightarrow> h))"

text \<open>
  \<^verbatim>\<open>String.prototype.toUpperCase\<close> on the code units a \<^typ>\<open>string\<close> has, those below 256:
  the ASCII letters and the Latin-1 letters \<^verbatim>\<open>0xE0\<close> to \<^verbatim>\<open>0xFE\<close> (the division sign \<^verbatim>\<open>0xF7\<close>
  apart) move down by 32, and the sharp s (\<^verbatim>\<open>0xDF\<close>) becomes \<^verbatim>\<open>SS\<close>. The upper-case forms of
  the micro sign (\<^verbatim>\<open>0xB5\<close>) and of y with diaeresis (\<^verbatim>\<open>0xFF\<close>) lie above 255 and have no
  \<^typ>\<open>char\<close>: these two are left as they are.
\<close>

definition upper_char :: "char \<Rightarrow> string" where
  "upper_char c =
     (let n = (of_char c :: nat)
      in if 97 \<le> n \<and> n \<le> 122 then [char_of (n - 32)]
         else if n = 223 then ''SS''
         else if 224 \<le> n \<and> n \<le> 254 \<and> n \<noteq> 247 then [char_of (n - 32)]
         else [c])"

definition toUpperCase :: "string \<Rightarrow> string" where
  "toUpperCase s = concat (map upper_char s)"

text \<open>
  The SDK config of \<^verbatim>\<open>generateText\<close>. \<^verbatim>\<open>modelInfo.features.includes\<close> raises when
  \<^verbatim>\<open>modelInfo\<close> is no table entry, \<^verbatim>\<open>args.thinkingLevel.toUpperCase()\<close> when the level is
  no string; \<open>args\<close> is neither \<^verbatim>\<open>undefined\<close> nor \<^verbatim>\<open>null\<close> here.
\<close>

definition generateText_config :: "jsval \<Rightarrow> model_lookup \<Rightarrow> js_exn + json" where
  "generateText_config args modelInfo =
     (let base =
            [(''temperature'', Some (nullish_default (opt_prop args ''temperature'') (JNum 1))),
             (''maxOutputTokens'', Some (or_default (opt_prop args ''maxTokens'') (JNum 2048))),
             (''topK'', Some (or_default (opt_prop args ''topK'') (JNum 40))),
             (''topP'', Some (or_default (opt_prop args ''topP'') (JNum (95 / 100))))]
            @ (if truthy (opt_prop args ''systemInstruction'')
               then [(''systemInstruction'', opt_prop args ''systemInstruction'')] else [])
            @ (if truthy (opt_prop args ''jsonMode'')
               then (''responseMimeType'', Some (JStr ''application/json''))
                    # (if truthy (opt_prop args ''jsonSchema'')
                       then [(''responseSchema'', opt_prop args ''jsonSchema'')] else [])
               else [])
            @ (if truthy (opt_prop args ''safetySettings'')
               then [(''safetySettings'', opt_prop args ''safetySettings'')] else [])
      in
      case (if truthy (opt_prop args ''grounding'')
            then (case modelInfo of
                    OwnModel info \<Rightarrow>
                      Inr (if ''grounding'' \<in> set (features info)
                           then [(''tools'', Some (JArr [JObj [(''googleSearch'', JObj [])]]))] else [])
                  | _ \<Rightarrow> Inl (JsError (''Cannot read properties of undefined (reading ''
                                        @ [CHR 0x27] @ ''includes'' @ [CHR 0x27] @ '')'')))
            else Inr []) of
        Inl e \<Rightarrow> Inl e
      | Inr tools \<Rightarrow>
          if truthy (opt_prop args ''thinkingLevel'')
             \<and> (case modelInfo of OwnModel info \<Rightarrow> thinking info | _ \<Rightarrow> False)
          then (case opt_prop args ''thinkingLevel'' of
                  Some (JStr level) \<Rightarrow>
                    Inr (obj (base @ tools
                         @ [(''thinkingConfig'', Some (JObj [(''thinkingLevel'', JStr (toUpperCase level))]))]))
                | _ \<Rightarrow> Inl (JsError ''args.thinkingLevel.toUpperCase is not a function''))
          else Inr (obj (base @ tools)))"

text \<open>
  The body of the \<^verbatim>\<open>try\<close> of \<^verbatim>\<open>generateText\<close>: \<open>Inl\<close> is the exception with the state it
  was raised in, \<open>Inr\<close> the normal return.
\<close>

definition generateText_try ::
  "statics \<Rightarrow> jsval \<Rightarrow> jsval \<Rightarrow> answers \<Rightarrow> world \<Rightarrow> (js_exn \<times> world) + (world \<times> response)" where
  "generateText_try S i args ans w =
     (case get_prop args ''model'' of
        Inl e \<Rightarrow> Inl (e, w)
      | Inr m \<Rightarrow>
          let model = or_default m (JStr (DEFAULT_MODEL S)) in
          case toString_js model of
            Inl e \<Rightarrow> Inl (e, w)
          | Inr key \<Rightarrow>
              let modelInfo = lookup_model key in
              if modelInfo = Missing then Inl (JsError (''Unknown model: '' @ key), w)
              else
                let prompt = opt_prop args ''prompt'';
                    conversationId = opt_prop args ''conversationId'';
                    contents =
                      (if truthy conversationId
                       then (let history = history_of w conversationId
                             in if length history > 0 then history @ [user_content prompt]
                                else [user_content prompt])
                       else [user_content prompt])
                in
                case generateText_config args modelInfo of
                  Inl e \<Rightarrow> Inl (e, w)
                | Inr config \<Rightarrow>
                    let w1 = call_provider (GenerateContent model contents (Some config)) w in
                    case on_generateContent ans of
                      Inl e \<Rightarrow> Inl (e, w1)
                    | Inr result \<Rightarrow>
                        let text = (case r_text result of None \<Rightarrow> [] | Some t \<Rightarrow> t);
                            w2 = (case conversationId of
                                    None \<Rightarrow> w1
                                  | Some k \<Rightarrow>
                                      if truthy conversationId
                                      then conversations_set k
                                             (history_of w1 conversationId
                                                @ [user_content prompt, model_content text]) w1
                                      else w1)
                        in Inr (w2, Response i (Result (JObj
                             [(''content'', text_content text),
                              (''metadata'', obj
                                 [(''model'', Some model),
                                  (''tokensUsed'', map_option JNum (r_totalTokenCount result)),
                                  (''candidatesCount'',
                                     Some (JNum (case r_candidates result of
                                                   None \<Rightarrow> 1
                                                 | Some cs \<Rightarrow> if length cs = 0 then 1 else of_nat (length cs)))),
                                  (''finishReason'',
                                     (case r_candidates result of Some (c # cs) \<Rightarrow> c | _ \<Rightarrow> None))])]))))"

definition generateText :: "statics \<Rightarrow> jsval \<Rightarrow> jsval \<Rightarrow> answers \<Rightarrow> world \<Rightarrow> world \<times> response" where
  "generateText S i args ans w =
     (case generateText_try S i args ans w of
        Inr ret \<Rightarrow> ret
      | Inl (e, w') \<Rightarrow>
          (console_error (ErrorIn ''generateText'' e) w',
           tool_error i (''Error: '' @ message_or ''Internal error'' e)))"

text \<open>
  \<^verbatim>\<open>s.match(/^data:(.+);base64,(.+)$/)\<close>: the first group is greedy, so the split is at the
  last \<^verbatim>\<open>;base64,\<close> that leaves both groups non-empty; a dot matches no line terminator.
\<close>

definition no_terminator :: "string \<Rightarrow> bool" where
  "no_terminator s = (LF \<notin> set s \<and> CR \<notin> set s)"

definition match_data_uri :: "string \<Rightarrow> (string \<times> string) option" where
  "match_data_uri s =
     (if take 5 s = ''data:''
      then (let rest = drop 5 s
            in map_option (\<lambda>n. (take n rest, drop (n + 8) rest))
                 (find (\<lambda>n. take 8 (drop n rest) = '';base64,'' \<and> drop (n + 8) rest \<noteq> []
                             \<and> no_terminator (take n rest) \<and> no_terminator (drop (n + 8) rest))
                       (rev [1..<length rest])))
      else None)"

text \<open>\<^verbatim>\<open>v.length\<close> of a value that is neither \<^verbatim>\<open>undefined\<close> nor \<^verbatim>\<open>null\<close>.\<close>

fun length_of :: "jsval \<Rightarrow> jsval" where
  "length_of (Some (JStr s)) = Some (JNum (of_nat (length s)))"
| "length_of (Some (JArr xs)) = Some (JNum (of_nat (length xs)))"
| "length_of (Some (JObj kvs)) = map_of kvs ''length''"
| "length_of v = None"

text \<open>The image part of \<^verbatim>\<open>analyzeImage\<close>, with what it prints on the way.\<close>

definition imagePart :: "jsval \<Rightarrow> world \<Rightarrow> (js_exn \<times> world) + (world \<times> part)" where
  "imagePart args w =
     (if truthy (opt_prop args ''imageUrl'')
      then (case toString_val (opt_prop args ''imageUrl'') of
              Inl e \<Rightarrow> Inl (e, w)
            | Inr url \<Rightarrow> Inr (w, TextPart (Some (JStr (''[Image URL: '' @ url @ '']'')))))
      else if truthy (opt_prop args ''imageBase64'')
      then (case toString_val (length_of (opt_prop args ''imageBase64'')) of
              Inl e \<Rightarrow> Inl (e, w)
            | Inr len \<Rightarrow>
                let w1 = console_error (ImageBase64Length len) w in
                case opt_prop args ''imageBase64'' of
                  Some (JStr b) \<Rightarrow>
                    (case match_data_uri b of
                       Some (mimeType, data) \<Rightarrow>
                         Inr (console_error (MimeTypeAndLength mimeType (length data)) w1,
                              InlineData mimeType data)
                     | None \<Rightarrow> Inr (console_error RawBase64 w1, InlineData ''image/jpeg'' b))
                | _ \<Rightarrow> Inl (JsError ''args.imageBase64.match is not a function'', w1))
      else Inr (w, NoPart))"

definition analyzeImage_try ::
  "statics \<Rightarrow> jsval \<Rightarrow> jsval \<Rightarrow> answers \<Rightarrow> world \<Rightarrow> (js_exn \<times> world) + (world \<times> response)" where
  "analyzeImage_try S i args ans w =
     (case get_prop args ''model'' of
        Inl e \<Rightarrow> Inl (e, w)
      | Inr m \<Rightarrow>
          let model = or_default m (JStr (DEFAULT_MODEL S)) in
          if \<not> truthy (opt_prop args ''imageUrl'') \<and> \<not> truthy (opt_prop args ''imageBase64'')
          then Inl (JsError ''Either imageUrl or imageBase64 must be provided'', w)
          else
            case imagePart args w of
              Inl ew \<Rightarrow> Inl ew
            | Inr (w1, img) \<Rightarrow>
                let config = (if truthy (opt_prop args ''mediaResolution'')
                              then Some (obj [(''mediaResolution'', opt_prop args ''mediaResolution'')])
                              else None);
                    w2 = call_provider
                           (GenerateContent model
                              [\<lparr>parts = [TextPart (opt_prop args ''prompt''), img], role = ''user''\<rparr>]
                              config) w1
                in
                case on_generateContent ans of
                  Inl e \<Rightarrow> Inl (e, w2)
                | Inr result \<Rightarrow>
                    let text = (case r_text result of None \<Rightarrow> [] | Some t \<Rightarrow> t)
                    in Inr (w2, Response i (Result (JObj [(''content'', text_content text)]))))"

definition analyzeImage :: "statics \<Rightarrow> jsval \<Rightarrow> jsval \<Rightarrow> answers \<Rightarrow> world \<Rightarrow> world \<times> response" where
  "analyzeImage S i args ans w =
     (case analyzeImage_try S i args ans w of
        Inr ret \<Rightarrow> ret
      | Inl (e, w') \<Rightarrow>
          (console_error (ErrorIn ''analyzeImage'' e) w',
           tool_error i (''Image analysis failed: '' @ message_or ''Unknown error'' e)))"

definition countTokens_try ::
  "statics \<Rightarrow> jsval \<Rightarrow> jsval \<Rightarrow> answers \<Rightarrow> world \<Rightarrow> (js_exn \<times> world) + (world \<times> response)" where
  "countTokens_try S i args ans w =
     (case get_prop args ''model'' of
        Inl e \<Rightarrow> Inl (e, w)
      | Inr m \<Rightarrow>
          let model = or_default m (JStr (DEFAULT_MODEL S));
              w1 = call_provider (CountTokens model [user_content (opt_prop args ''text'')]) w
          in
          case on_countTokens ans of
            Inl e \<Rightarrow> Inl (e, w1)
          | Inr totalTokens \<Rightarrow>
              Inr (w1, Response i (Result (JObj
                [(''content'',
                    text_content (''Token count: ''
                      @ (case totalTokens of None \<Rightarrow> ''undefined'' | Some n \<Rightarrow> num_str n))),
                 (''metadata'', obj [(''tokenCount'', map_option JNum totalTokens),
                                     (''model'', Some model)])]))))"

definition countTokens :: "statics \<Rightarrow> jsval \<Rightarrow> jsval \<Rightarrow> answers \<Rightarrow> world \<Rightarrow> world \<times> response" where
  "countTokens S i args ans w =
     (case countTokens_try S i args ans w of
        Inr ret \<Rightarrow> ret
      | Inl (e, w') \<Rightarrow>
          (console_error (ErrorIn ''countTokens'' e) w',
           tool_error i (''Token counting failed: '' @ message_or ''Internal error'' e)))"

definition embedText_try ::
  "jsval \<Rightarrow> jsval \<Rightarrow> answers \<Rightarrow> world \<Rightarrow> (js_exn \<times> world) + (world \<times> response)" where
  "embedText_try i args ans w =
     (case get_prop args ''model'' of
        Inl e \<Rightarrow> Inl (e, w)
      | Inr m \<Rightarrow>
          let model = or_default m (JStr ''gemini-embedding-001'');
              w1 = call_provider (EmbedContent model (opt_prop args ''text'')) w
          in
          case on_embedContent ans of
            Inl e \<Rightarrow> Inl (e, w1)
          | Inr values \<Rightarrow>
              let embedding = (case values of None \<Rightarrow> [] | Some vs \<Rightarrow> vs)
              in Inr (w1, Response i (Result (JObj
                   [(''content'',
                       text_content (stringify (JObj [(''embedding'', JArr (map JNum embedding)),
                                                      (''model'', model)]))),
                    (''metadata'', JObj [(''model'', model),
                                         (''dimensions'', JNum (of_nat (length embedding)))])]))))"

definition embedText :: "jsval \<Rightarrow> jsval \<Rightarrow> answers \<Rightarrow> world \<Rightarrow> world \<times> response" where
  "embedText i args ans w =
     (case embedText_try i args ans w of
        Inr ret \<Rightarrow> ret
      | Inl (e, w') \<Rightarrow>
          (console_error (ErrorIn ''embedText'' e) w',
           tool_error i (''Embedding failed: '' @ message_or ''Internal error'' e)))"

text \<open>
  \<^verbatim>\<open>listModels\<close>. The filter is \<^verbatim>\<open>args?.filter || 'all'\<close>; on an array \<^verbatim>\<open>args.filter\<close> is the
  method \<^verbatim>\<open>Array.prototype.filter\<close>, a truthy value equal to no case label, which
  \<^verbatim>\<open>JSON.stringify\<close> leaves out of the metadata.
\<close>

datatype filter_value = FilterValue json | FilterFunction

definition listModels_filter :: "jsval \<Rightarrow> filter_value" where
  "listModels_filter args =
     (case args of
        Some (JArr xs) \<Rightarrow> FilterFunction
      | _ \<Rightarrow> FilterValue (or_default (opt_prop args ''filter'') (JStr ''all'')))"

definition filter_accepts :: "filter_value \<Rightarrow> model_info \<Rightarrow> bool" where
  "filter_accepts f info =
     (if f = FilterValue (JStr ''thinking'') then thinking info = True
      else if f = FilterValue (JStr ''vision'') then ''function_calling'' \<in> set (features info)
      else if f = FilterValue (JStr ''grounding'') then ''grounding'' \<in> set (features info)
      else if f = FilterValue (JStr ''json_mode'') then ''json_mode'' \<in> set (features info)
      else True)"

definition listModels_models :: "filter_value \<Rightarrow> (string \<times> model_info) list" where
  "listModels_models f =
     (if f \<noteq> FilterValue (JStr ''all'')
      then filter (\<lambda>entry. filter_accepts f (snd entry)) GEMINI_MODELS
      else GEMINI_MODELS)"

definition modelList :: "filter_value \<Rightarrow> json list" where
  "modelList f =
     map (\<lambda>entry. obj ((''name'', Some (JStr (fst entry))) # info_fields (snd entry)))
         (listModels_models f)"

definition listModels :: "jsval \<Rightarrow> jsval \<Rightarrow> response" where
  "listModels i args =
     (let f = listModels_filter args
      in Response i (Result (JObj
           [(''content'', text_content (stringify2 0 (JArr (modelList f)))),
            (''metadata'', obj [(''count'', Some (JNum (of_nat (length (modelList f))))),
                                (''filter'', (case f of FilterValue v \<Rightarrow> Some v
                                                      | FilterFunction \<Rightarrow> None))])])))"

definition getHelpContent :: "statics \<Rightarrow> string \<Rightarrow> string" where
  "getHelpContent S topic =
     (if topic = ''overview'' then helpOverview S
      else if topic = ''tools'' then helpTools S
      else if topic = ''parameters'' then helpParameters S
      else if topic = ''examples'' then helpExamples S
      else ''Unknown help topic.'')"

definition getHelp :: "statics \<Rightarrow> jsval \<Rightarrow> jsval \<Rightarrow> response" where
  "getHelp S i args =
     (let topic = or_default (opt_prop args ''topic'') (JStr ''overview'');
          helpContent =
            (if topic = JStr ''overview'' then getHelpContent S ''overview''
             else if topic = JStr ''tools'' then getHelpContent S ''tools''
             else if topic = JStr ''models'' then helpModels S
             else if topic = JStr ''parameters'' then getHelpContent S ''parameters''
             else if topic = JStr ''examples'' then getHelpContent S ''examples''
             else if topic = JStr ''quick-start'' then helpQuickStart S
             else ''Unknown help topic. Available topics: overview, tools, models, parameters, examples, quick-start'')
      in Response i (Result (JObj [(''content'', text_content helpContent)])))"

section \<open>The router\<close>

definition resource_contents :: "jsval \<Rightarrow> json \<Rightarrow> string \<Rightarrow> string \<Rightarrow> response" where
  "resource_contents i uri mimeType content =
     Response i (Result (JObj [(''contents'',
       JArr [JObj [(''uri'', uri), (''mimeType'', JStr mimeType), (''text'', JStr content)]])]))"

text \<open>
  \<^verbatim>\<open>handleResourceRead\<close>. It has no \<^verbatim>\<open>try\<close> of its own: the template literal of the
  default case raises when the \<^verbatim>\<open>uri\<close> has no string conversion.
\<close>

definition handleResourceRead :: "statics \<Rightarrow> json \<Rightarrow> js_exn + response" where
  "handleResourceRead S request =
     (let uri = opt_prop (opt_prop (Some request) ''params'') ''uri'';
          i = opt_prop (Some request) ''id''
      in
      if \<not> truthy uri then Inr (Response i (Error (- 32602) ''Missing required parameter: uri''))
      else if uri = Some (JStr ''gemini://models'')
        then Inr (resource_contents i (JStr ''gemini://models'') ''application/json''
                    (stringify2 0 GEMINI_MODELS_json))
      else if uri = Some (JStr ''gemini://capabilities'')
        then Inr (resource_contents i (JStr ''gemini://capabilities'') ''text/markdown''
                    (capabilitiesText S))
      else if uri = Some (JStr ''gemini://help/usage'')
        then Inr (resource_contents i (JStr ''gemini://help/usage'') ''text/markdown''
                    (getHelpContent S ''overview'' @ [LF, LF] @ getHelpContent S ''tools''))
      else if uri = Some (JStr ''gemini://help/parameters'')
        then Inr (resource_contents i (JStr ''gemini://help/parameters'') ''text/markdown''
                    (getHelpContent S ''parameters''))
      else if uri = Some (JStr ''gemini://help/examples'')
        then Inr (resource_contents i (JStr ''gemini://help/examples'') ''text/markdown''
                    (getHelpContent S ''examples''))
      else (case toString_val uri of
              Inl e \<Rightarrow> Inl e
            | Inr u \<Rightarrow> Inr (Response i (Error (- 32602) (''Unknown resource: '' @ u)))))"

text \<open>
  \<^verbatim>\<open>handleToolCall\<close>: \<^verbatim>\<open>const { name, arguments: args } = request.params || {}\<close>, then the
  \<^verbatim>\<open>switch\<close> on the name. The default case builds its message with a template literal.
\<close>

definition handleToolCall :: "statics \<Rightarrow> json \<Rightarrow> answers \<Rightarrow> world \<Rightarrow> js_exn + (world \<times> response)" where
  "handleToolCall S request ans w =
     (let params = opt_prop (Some request) ''params'';
          name = (if truthy params then opt_prop params ''name'' else None);
          args = (if truthy params then opt_prop params ''arguments'' else None);
          i = opt_prop (Some request) ''id''
      in
      if name = Some (JStr ''generate_text'') then Inr (generateText S i args ans w)
      else if name = Some (JStr ''analyze_image'') then Inr (analyzeImage S i args ans w)
      else if name = Some (JStr ''count_tokens'') then Inr (countTokens S i args ans w)
      else if name = Some (JStr ''list_models'') then Inr (w, listModels i args)
      else if name = Some (JStr ''embed_text'') then Inr (embedText i args ans w)
      else if name = Some (JStr ''get_help'') then Inr (w, getHelp S i args)
      else (case toString_val name of
              Inl e \<Rightarrow> Inl e
            | Inr n \<Rightarrow> Inr (w, Response i (Error (- 32602) (''Unknown tool: '' @ n)))))"

text \<open>\<^verbatim>\<open>'id' in request\<close>: a \<^verbatim>\<open>TypeError\<close> when the right operand is no object.\<close>

fun has_id :: "json \<Rightarrow> js_exn + bool" where
  "has_id (JObj kvs) = Inr (''id'' \<in> fst ` set kvs)"
| "has_id (JArr xs) = Inr False"
| "has_id v =
     Inl (JsError (''Cannot use '' @ [CHR 0x27] @ ''in'' @ [CHR 0x27] @ '' operator to search for ''
                   @ [CHR 0x27] @ ''id'' @ [CHR 0x27] @ '' in ''
                   @ (case toString_js v of Inl e \<Rightarrow> [] | Inr t \<Rightarrow> t)))"

text \<open>
  The body of the \<^verbatim>\<open>try\<close> of \<^verbatim>\<open>handleRequest\<close> up to the call of \<^verbatim>\<open>sendResponse\<close>: the
  response to send, or none where the code returns early (a notification, which it prints
  with a template literal), or the exception that reaches the \<^verbatim>\<open>catch\<close>. No path that
  raises has changed the state before.
\<close>

definition handleRequest_try ::
  "statics \<Rightarrow> json \<Rightarrow> answers \<Rightarrow> world \<Rightarrow> js_exn + (world \<times> response option)" where
  "handleRequest_try S request ans w =
     (let method = opt_prop (Some request) ''method'';
          i = opt_prop (Some request) ''id''
      in
      if method = Some (JStr ''initialize'') then
        Inr (w, Some (Response i (Result (JObj
          [(''protocolVersion'', JStr ''2024-11-05''),
           (''serverInfo'', JObj [(''name'', JStr ''mcp-server-gemini-enhanced''),
                                  (''version'', JStr ''0.5.1'')]),
           (''capabilities'', JObj [(''tools'', JObj []), (''resources'', JObj []),
                                    (''prompts'', JObj [])])]))))
      else if method = Some (JStr ''tools/list'') then
        Inr (w, Some (Response i (Result (JObj [(''tools'', availableTools S)]))))
      else if method = Some (JStr ''tools/call'') then
        (case handleToolCall S request ans w of
           Inl e \<Rightarrow> Inl e
         | Inr (w', response) \<Rightarrow> Inr (w', Some response))
      else if method = Some (JStr ''resources/list'') then
        Inr (w, Some (Response i (Result (JObj [(''resources'', availableResources S)]))))
      else if method = Some (JStr ''resources/read'') then
        (case handleResourceRead S request of
           Inl e \<Rightarrow> Inl e
         | Inr response \<Rightarrow> Inr (w, Some response))
      else if method = Some (JStr ''prompts/list'') then
        Inr (w, Some (Response i (Result (JObj [(''prompts'', availablePrompts S)]))))
      else if method = Some (JStr ''ping'') then
        Inr (w, Some (Response i (Result (JObj []))))
      else
        (case has_id request of
           Inl e \<Rightarrow> Inl e
         | Inr present \<Rightarrow>
             if \<not> present
             then (case toString_val method of
                     Inl e \<Rightarrow> Inl e
                   | Inr m \<Rightarrow> Inr (console_error (NotificationReceived m) w, None))
             else Inr (w, Some (Response i (Error (- 32601) ''Method not found'')))))"

text \<open>
  \<^verbatim>\<open>handleRequest\<close> is an \<^verbatim>\<open>async\<close> function: \<open>Inl\<close> is its promise rejected, which happens
  only on \<^verbatim>\<open>null\<close>, where \<^verbatim>\<open>request.method\<close> raises before the \<^verbatim>\<open>try\<close> is entered.
\<close>

definition handleRequest :: "statics \<Rightarrow> json \<Rightarrow> answers \<Rightarrow> world \<Rightarrow> js_exn + world" where
  "handleRequest S request ans w =
     (if request = JNull
      then Inl (JsError (''Cannot read properties of null (reading ''
                         @ [CHR 0x27] @ ''method'' @ [CHR 0x27] @ '')''))
      else
        let w0 = console_error (HandlingRequest (opt_prop (Some request) ''method'')) w in
        case handleRequest_try S request ans w0 of
          Inr (w1, Some response) \<Rightarrow> Inr (sendResponse response w1)
        | Inr (w1, None) \<Rightarrow> Inr w1
        | Inl e \<Rightarrow>
            Inr (sendResponse
                   (Response (opt_prop (Some request) ''id'')
                      (Error (- 32603) (message_or ''Internal error'' e))) w0))"

section \<open>The line handler\<close>

text \<open>
  \<^verbatim>\<open>String.prototype.trim\<close> removes white space and line terminators at both ends; below
  256 these are the seven code units of \<open>js_whitespace\<close>.
\<close>

definition js_whitespace :: "char \<Rightarrow> bool" where
  "js_whitespace c =
     (c \<in> {CHR 0x09, CHR 0x0A, CHR 0x0B, CHR 0x0C, CHR 0x0D, CHR 0x20, CHR 0xA0})"

definition trim :: "string \<Rightarrow> string" where
  "trim s = rev (dropWhile js_whitespace (rev (dropWhile js_whitespace s)))"

text \<open>
  The listener of the \<^verbatim>\<open>line\<close> event. \<^verbatim>\<open>JSON.parse\<close> is the platform's and is a parameter:
  \<open>None\<close> where it raises. The \<^verbatim>\<open>catch\<close> of the listener sees that exception only; a
  rejected promise of \<^verbatim>\<open>handleRequest\<close> is handled nowhere (\<open>Inl\<close>), which ends the process.
\<close>

definition on_line ::
  "statics \<Rightarrow> (string \<Rightarrow> json option) \<Rightarrow> string \<Rightarrow> answers \<Rightarrow> world \<Rightarrow> js_exn + world" where
  "on_line S JSON_parse line ans w =
     (if trim line \<noteq> []
      then (case JSON_parse line of
              None \<Rightarrow> Inr (console_error FailedToParse w)
            | Some request \<Rightarrow> handleRequest S request ans w)
      else Inr w)"

text \<open>
  The lines of the input, one after the other, each with the provider's answer to the call
  it makes: the final state, and the rejection that ended the process, if any. A line is
  served to its end before the next one is read: the model is of requests that do not
  overlap (in the program a later line can be handled while an earlier call awaits the
  provider).
\<close>

fun serve ::
  "statics \<Rightarrow> (string \<Rightarrow> json option) \<Rightarrow> (string \<times> answers) list \<Rightarrow> world \<Rightarrow> world \<times> js_exn option" where
  "serve S JSON_parse [] w = (w, None)"
| "serve S JSON_parse ((line, ans) # rest) w =
     (case on_line S JSON_parse line ans w of
        Inl e \<Rightarrow> (w, Some e)
      | Inr w' \<Rightarrow> serve S JSON_parse rest w')"

section \<open>Notions used in the statements\<close>

text \<open>The control characters, which include the line breaks \<open>LF\<close> and \<open>CR\<close>.\<close>

definition control :: "char \<Rightarrow> bool" where
  "control c = ((of_char c :: nat) < 32)"

text \<open>The \<^verbatim>\<open>name\<close> that \<^verbatim>\<open>handleToolCall\<close> switches on and the \<^verbatim>\<open>args\<close> it passes on.\<close>

definition requested_tool :: "json \<Rightarrow> jsval" where
  "requested_tool request = opt_prop (opt_prop (Some request) ''params'') ''name''"

definition tool_arguments :: "json \<Rightarrow> jsval" where
  "tool_arguments request = opt_prop (opt_prop (Some request) ''params'') ''arguments''"


text \<open>The state of a freshly started process, and sample data for concrete runs.\<close>

definition initial_world :: world where
  "initial_world = \<lparr>conversations = (\<lambda>k. None), stdout = [], stderr = [], provider_calls = []\<rparr>"

definition sample_statics :: statics where
  "sample_statics =
     \<lparr>GEMINI_DEFAULT_MODEL = None, availableTools = JArr [], availableResources = JArr [],
      availablePrompts = JArr [], capabilitiesText = ''# Gemini API Capabilities'',
      helpOverview = ''# Gemini MCP Server Help'', helpTools = ''# Available Tools'',
      helpParameters = ''# Parameter Reference'', helpExamples = ''# Usage Examples'',
      helpModels = ''# Available Gemini Models'', helpQuickStart = ''# Quick Start Guide''\<rparr>"

definition provider_returns :: "string \<Rightarrow> answers" where
  "provider_returns t =
     \<lparr>on_generateContent = Inr \<lparr>r_text = Some t, r_totalTokenCount = None, r_candidates = None\<rparr>,
      on_countTokens = Inr (Some 3),
      on_embedContent = Inr (Some [])\<rparr>"


definition ping_line :: string where
  \<open>ping_line = ''{"jsonrpc":"2.0","id":1,"method":"ping"}''\<close>

definition ping_request :: json where
  "ping_request = JObj [(''jsonrpc'', JStr ''2.0''), (''id'', JNum 1), (''method'', JStr ''ping'')]"

definition broken_line :: string where
  \<open>broken_line = ''{"jsonrpc":"2.0","id":2,"method":''\<close>

definition first_arguments :: json where
  "first_arguments =
     JObj [(''prompt'', JStr ''My name is Alice.''), (''conversationId'', JStr ''test-conv-1'')]"

definition second_arguments :: json where
  "second_arguments =
     JObj [(''prompt'', JStr ''What is my name?''), (''conversationId'', JStr ''test-conv-1'')]"

definition third_arguments :: json where
  "third_arguments =
     JObj [(''prompt'', JStr ''Spell it.''), (''conversationId'', JStr ''test-conv-1'')]"

definition first_line :: string where
  \<open>first_line = ''{"jsonrpc":"2.0","id":112,"method":"tools/call","params":{"name":"generate_text","arguments":{"prompt":"My name is Alice.","conversationId":"test-conv-1"}}}''\<close>

definition first_call :: json where
  "first_call =
     JObj [(''jsonrpc'', JStr ''2.0''), (''id'', JNum 112), (''method'', JStr ''tools/call''),
           (''params'', JObj [(''name'', JStr ''generate_text''), (''arguments'', first_arguments)])]"

text \<open>A parser that knows two lines, standing for \<^verbatim>\<open>JSON.parse\<close> in concrete runs.\<close>

definition sample_parse :: "string \<Rightarrow> json option" where
  "sample_parse line =
     (if line = ping_line then Some ping_request
      else if line = first_line then Some first_call
      else None)"

text \<open>The states after one, two and three successful calls in one conversation.\<close>

definition after_first :: world where
  "after_first =
     fst (generateText sample_statics (Some (JNum 112)) (Some first_arguments)
            (provider_returns ''Hello, Alice.'') initial_world)"

definition after_second :: world where
  "after_second =
     fst (generateText sample_statics (Some (JNum 113)) (Some second_arguments)
            (provider_returns ''Your name is Alice.'') after_first)"

definition after_third :: world where
  "after_third =
     fst (generateText sample_statics (Some (JNum 114)) (Some third_arguments)
            (provider_returns ''A-l-i-c-e.'') after_second)"

definition default_config :: json where
  "default_config =
     JObj [(''temperature'', JNum 1), (''maxOutputTokens'', JNum 2048), (''topK'', JNum 40),
           (''topP'', JNum (95 / 100))]"

text \<open>The state with the diagnostic channel emptied.\<close>

definition without_diagnostics :: "world \<Rightarrow> world" where
  "without_diagnostics w = w\<lparr>stderr := []\<rparr>"

definition pong_line :: string where
  \<open>pong_line = ''{"jsonrpc":"2.0","id":1,"result":{}}''\<close>

text \<open>A \<^verbatim>\<open>resources/read\<close> whose \<^verbatim>\<open>uri\<close> has no string conversion.\<close>

definition poisoned_read :: json where
  "poisoned_read =
     JObj [(''jsonrpc'', JStr ''2.0''), (''id'', JNum 7), (''method'', JStr ''resources/read''),
           (''params'', JObj [(''uri'', JObj [(''toString'', JNum 1)])])]"

definition unknown_tool_call :: json where
  "unknown_tool_call =
     JObj [(''jsonrpc'', JStr ''2.0''), (''id'', JNum 51), (''method'', JStr ''tools/call''),
           (''params'', JObj [(''name'', JStr ''nonexistent_tool''), (''arguments'', JObj [])])]"



definition analyze_without_image :: json where
  "analyze_without_image =
     JObj [(''jsonrpc'', JStr ''2.0''), (''id'', JNum 3), (''method'', JStr ''tools/call''),
           (''params'', JObj [(''name'', JStr ''analyze_image''),
                              (''arguments'', JObj [(''prompt'', JStr ''What is this?'')])])]"

definition analyze_both :: json where
  "analyze_both =
     JObj [(''jsonrpc'', JStr ''2.0''), (''id'', JNum 1), (''method'', JStr ''tools/call''),
           (''params'', JObj [(''name'', JStr ''analyze_image''),
                              (''arguments'', JObj [(''prompt'', JStr ''What is this?''),
                                                    (''imageUrl'', JStr ''https://example.com/cat.png''),
                                                    (''imageBase64'', JStr ''AAAA'')])])]"

definition generate_without_prompt :: json where
  "generate_without_prompt =
     JObj [(''jsonrpc'', JStr ''2.0''), (''id'', JNum 2), (''method'', JStr ''tools/call''),
           (''params'', JObj [(''name'', JStr ''generate_text''), (''arguments'', JObj [])])]"

text \<open>A \<^verbatim>\<open>tools/call\<close> whose \<^verbatim>\<open>name\<close> has no string conversion.\<close>

definition poisoned_tool_call :: json where
  "poisoned_tool_call =
     JObj [(''jsonrpc'', JStr ''2.0''), (''id'', JNum 51), (''method'', JStr ''tools/call''),
           (''params'', JObj [(''name'', JObj [(''toString'', JNum 1)]), (''arguments'', JObj [])])]"



text \<open>
  Two lines that are JSON texts but no request objects, a parser that knows them beside the
  lines of \<open>sample_parse\<close>, and the line that answers the first.
\<close>

definition number_line :: string where
  "number_line = ''42''"

definition null_line :: string where
  "null_line = ''null''"

definition value_parse :: "string \<Rightarrow> json option" where
  "value_parse line =
     (if line = number_line then Some (JNum 42)
      else if line = null_line then Some JNull
      else sample_parse line)"

definition internal_error_line :: string where
  \<open>internal_error_line =
     ''{"jsonrpc":"2.0","error":{"code":-32603,"message":"Cannot use '' @ [CHR 0x27] @ ''in''
     @ [CHR 0x27] @ '' operator to search for '' @ [CHR 0x27] @ ''id'' @ [CHR 0x27] @ '' in 42"}}''\<close>

section \<open>Properties\<close>

subsection \<open>The encoder emits printable characters only\<close>

lemma control_LF: "control LF" and control_CR: "control CR"
  by (simp_all add: control_def LF_def CR_def)

lemma digit_char_in: "digit_char d \<in> set ''0123456789''"
  unfolding digit_char_def by (rule nth_mem) simp

lemma hex_char_in: "hex_char d \<in> set ''0123456789abcdef''"
  unfolding hex_char_def by (rule nth_mem) simp

lemma digit_char_printable: "\<not> control (digit_char d)"
  using digit_char_in [of d] by (auto simp: control_def)

lemma hex_char_printable: "\<not> control (hex_char d)"
  using hex_char_in [of d] by (auto simp: control_def)

lemma digits_printable: "c \<in> set (digits n) \<Longrightarrow> \<not> control c"
proof (induction n rule: digits.induct)
  case (1 n)
  then show ?case
    by (subst (asm) (2) digits.simps) (auto simp: digit_char_printable split: if_splits)
qed

lemma positive_str_printable: "c \<in> set (positive_str a) \<Longrightarrow> \<not> control c"
proof
  assume mem: "c \<in> set (positive_str a)" and ctl: "control c"
  obtain s m where sm: "decimal_scale a = (s, m)" by (cases "decimal_scale a")
  let ?ds = "rev (dropWhile (\<lambda>c. c = CHR ''0'') (rev (digits s)))"
  have ds: "c \<notin> set ?ds"
    using ctl digits_printable [of c s] by (auto dest: set_dropWhileD)
  then have "c \<notin> set (take i ?ds)" and "c \<notin> set (drop i ?ds)" for i
    by (auto dest: in_set_takeD in_set_dropD)
  moreover have "c \<notin> set (digits j)" for j
    using ctl digits_printable [of c j] by auto
  moreover have "c \<noteq> CHR ''0''" "c \<noteq> CHR ''.''" "c \<noteq> CHR ''e''" "c \<noteq> CHR ''-''" "c \<noteq> CHR ''+''"
    using ctl by (auto simp: control_def)
  ultimately show False
    using mem ds sm
    by (simp add: positive_str_def Let_def split: if_splits)
qed

lemma num_str_printable: "c \<in> set (num_str r) \<Longrightarrow> \<not> control c"
  by (auto simp: num_str_def control_def dest: positive_str_printable split: if_splits)

lemma escape_char_printable: "c \<in> set (escape_char d) \<Longrightarrow> \<not> control c"
  using hex_char_printable
  by (auto simp: escape_char_def control_def split: if_splits)

lemma quote_printable: "c \<in> set (quote s) \<Longrightarrow> \<not> control c"
  by (auto simp: quote_def control_def dest: escape_char_printable)

lemma commas_printable:
  "c \<in> set (commas xs) \<Longrightarrow> (\<And>x. x \<in> set xs \<Longrightarrow> c \<notin> set x) \<Longrightarrow> c = CHR '',''"
  by (induction xs rule: commas.induct) auto

lemma stringify_printable: "c \<in> set (stringify v) \<Longrightarrow> \<not> control c"
proof (induction v rule: stringify.induct)
  case (5 xs)
  show ?case
  proof
    assume ctl: "control c"
    with 5 have "\<And>x. x \<in> set (map stringify xs) \<Longrightarrow> c \<notin> set x" by auto
    with 5(2) ctl show False
      by (auto simp: control_def dest!: commas_printable)
  qed
next
  case (6 kvs)
  show ?case
  proof
    assume ctl: "control c"
    with 6(1) quote_printable [of c]
    have "\<And>x. x \<in> set (map (\<lambda>kv. quote (fst kv) @ '':'' @ stringify (snd kv)) kvs) \<Longrightarrow> c \<notin> set x"
      by (auto simp: control_def)
    with 6(2) ctl show False
      by (auto simp: control_def dest!: commas_printable)
  qed
qed (auto simp: control_def dest: num_str_printable quote_printable split: if_splits)

subsection \<open>What the handlers leave unchanged\<close>

lemma stdout_console_error [simp]: "stdout (console_error d w) = stdout w"
  and stdout_call_provider [simp]: "stdout (call_provider c w) = stdout w"
  and stdout_conversations_set [simp]: "stdout (conversations_set k h w) = stdout w"
  by (simp_all add: console_error_def call_provider_def conversations_set_def)

lemma resp_id_tool_error [simp]: "resp_id (tool_error i t) = i"
  by (simp add: tool_error_def)

lemma generateText_try_Inr:
  "generateText_try S i args ans w = Inr (w', r) \<Longrightarrow> resp_id r = i \<and> stdout w' = stdout w"
  by (auto simp: generateText_try_def Let_def split: sum.splits option.splits if_splits)

lemma generateText_try_Inl:
  "generateText_try S i args ans w = Inl (e, w') \<Longrightarrow> stdout w' = stdout w"
  by (auto simp: generateText_try_def Let_def split: sum.splits option.splits if_splits)

lemma generateText_shape:
  "generateText S i args ans w = (w', r) \<Longrightarrow> resp_id r = i \<and> stdout w' = stdout w"
  by (auto simp: generateText_def split: sum.splits dest: generateText_try_Inr generateText_try_Inl)

lemma imagePart_stdout:
  "imagePart args w = Inr (w', p) \<Longrightarrow> stdout w' = stdout w"
  "imagePart args w = Inl (e, w') \<Longrightarrow> stdout w' = stdout w"
  by (auto simp: imagePart_def Let_def split: sum.splits option.splits if_splits json.splits)

lemma analyzeImage_try_Inr:
  "analyzeImage_try S i args ans w = Inr (w', r) \<Longrightarrow> resp_id r = i \<and> stdout w' = stdout w"
  by (auto simp: analyzeImage_try_def Let_def split: sum.splits option.splits if_splits prod.splits
           dest: imagePart_stdout)

lemma analyzeImage_try_Inl:
  "analyzeImage_try S i args ans w = Inl (e, w') \<Longrightarrow> stdout w' = stdout w"
  by (auto simp: analyzeImage_try_def Let_def split: sum.splits option.splits if_splits prod.splits
           dest: imagePart_stdout)

lemma analyzeImage_shape:
  "analyzeImage S i args ans w = (w', r) \<Longrightarrow> resp_id r = i \<and> stdout w' = stdout w"
  by (auto simp: analyzeImage_def split: sum.splits dest: analyzeImage_try_Inr analyzeImage_try_Inl)

lemma countTokens_shape:
  "countTokens S i args ans w = (w', r) \<Longrightarrow> resp_id r = i \<and> stdout w' = stdout w"
  by (auto simp: countTokens_def countTokens_try_def Let_def split: sum.splits)

lemma embedText_shape:
  "embedText i args ans w = (w', r) \<Longrightarrow> resp_id r = i \<and> stdout w' = stdout w"
  by (auto simp: embedText_def embedText_try_def Let_def split: sum.splits)

lemma listModels_id [simp]: "resp_id (listModels i args) = i"
  by (simp add: listModels_def Let_def)

lemma getHelp_id [simp]: "resp_id (getHelp S i args) = i"
  by (simp add: getHelp_def Let_def)

lemma handleToolCall_shape:
  "handleToolCall S request ans w = Inr (w', r) \<Longrightarrow>
     resp_id r = opt_prop (Some request) ''id'' \<and> stdout w' = stdout w"
  by (auto simp: handleToolCall_def Let_def split: if_splits sum.splits
           dest: generateText_shape analyzeImage_shape countTokens_shape embedText_shape)

lemma handleResourceRead_shape:
  "handleResourceRead S request = Inr r \<Longrightarrow> resp_id r = opt_prop (Some request) ''id''"
  by (auto simp: handleResourceRead_def Let_def resource_contents_def split: if_splits sum.splits)

lemma handleRequest_try_Some:
  "handleRequest_try S request ans w = Inr (w', Some r) \<Longrightarrow>
     resp_id r = opt_prop (Some request) ''id'' \<and> stdout w' = stdout w"
  by (auto simp: handleRequest_try_def Let_def split: if_splits sum.splits
           dest: handleToolCall_shape handleResourceRead_shape)

lemma handleRequest_try_None:
  "handleRequest_try S request ans w = Inr (w', None) \<Longrightarrow>
     has_id request = Inr False \<and> stdout w' = stdout w"
  by (auto simp: handleRequest_try_def Let_def split: if_splits sum.splits)

subsection \<open>One response for each request with an identifier (C1)\<close>

lemma stdout_sendResponse: "stdout (sendResponse r w) = stdout w @ [stringify (response_json r) @ [LF]]"
  by (simp add: sendResponse_def)




lemma num_str_1: "num_str 1 = ''1''"
  by code_simp

lemma ping_run:
  "stdout (fst (serve sample_statics sample_parse [(ping_line, provider_returns [])] initial_world)) = [pong_line @ [LF]]"
  by (simp add: on_line_def sample_parse_def trim_def ping_line_def js_whitespace_def ping_request_def
      handleRequest_def handleRequest_try_def Let_def initial_world_def console_error_def sendResponse_def
      response_json_def obj_def quote_def escape_char_def num_str_1 pong_line_def)


subsection \<open>Exceptions of the handlers stop at the router (C2)\<close>

lemma handleToolCall_raises:
  "handleToolCall S request ans w = Inl e \<Longrightarrow> handleToolCall S request ans w' = Inl e"
  by (auto simp: handleToolCall_def Let_def split: if_splits sum.splits)

text \<open>
  Claim C2. When a handler called by the router (\<^verbatim>\<open>handleToolCall\<close>, \<^verbatim>\<open>handleResourceRead\<close>)
  raises, \<^verbatim>\<open>handleRequest\<close> still returns normally and has written exactly one response:
  the error with code -32603, the message of the exception and the \<^verbatim>\<open>id\<close> of the request.
  The conversations are untouched.
\<close>

theorem handler_exception_contained:
  assumes "opt_prop (Some request) ''method'' = Some (JStr ''tools/call'')
             \<and> handleToolCall S request ans w = Inl e
           \<or> opt_prop (Some request) ''method'' = Some (JStr ''resources/read'')
             \<and> handleResourceRead S request = Inl e"
  shows "\<exists>w'. handleRequest S request ans w = Inr w'
           \<and> stdout w' = stdout w @ [stringify (response_json
                 (Response (opt_prop (Some request) ''id'')
                    (Error (- 32603) (message_or ''Internal error'' e)))) @ [LF]]
           \<and> conversations w' = conversations w
           \<and> provider_calls w' = provider_calls w"
proof -
  let ?w0 = "console_error (HandlingRequest (opt_prop (Some request) ''method'')) w"
  from assms have nn: "request \<noteq> JNull" by auto
  from assms have "handleRequest_try S request ans ?w0 = Inl e"
    by (auto simp: handleRequest_try_def Let_def dest: handleToolCall_raises [where w' = ?w0])
  with nn show ?thesis
    by (simp add: handleRequest_def sendResponse_def console_error_def)
qed

lemma poisoned_read_raises:
  "handleResourceRead sample_statics poisoned_read = Inl (JsError ''Cannot convert object to primitive value'')"
  by (simp add: handleResourceRead_def poisoned_read_def Let_def)

theorem handler_exception_contained_witness:
  "(opt_prop (Some poisoned_read) ''method'' = Some (JStr ''tools/call'')
      \<and> handleToolCall sample_statics poisoned_read (provider_returns []) initial_world
          = Inl (JsError ''Cannot convert object to primitive value'')
    \<or> opt_prop (Some poisoned_read) ''method'' = Some (JStr ''resources/read'')
      \<and> handleResourceRead sample_statics poisoned_read
          = Inl (JsError ''Cannot convert object to primitive value''))
   \<and> (\<exists>w'. handleRequest sample_statics poisoned_read (provider_returns []) initial_world = Inr w'
           \<and> stdout w' = stdout initial_world @ [stringify (response_json
                 (Response (opt_prop (Some poisoned_read) ''id'')
                    (Error (- 32603) (message_or ''Internal error''
                       (JsError ''Cannot convert object to primitive value''))))) @ [LF]]
           \<and> conversations w' = conversations initial_world
           \<and> provider_calls w' = provider_calls initial_world)"
proof -
  have h: "opt_prop (Some poisoned_read) ''method'' = Some (JStr ''tools/call'')
      \<and> handleToolCall sample_statics poisoned_read (provider_returns []) initial_world
          = Inl (JsError ''Cannot convert object to primitive value'')
    \<or> opt_prop (Some poisoned_read) ''method'' = Some (JStr ''resources/read'')
      \<and> handleResourceRead sample_statics poisoned_read
          = Inl (JsError ''Cannot convert object to primitive value'')"
    using poisoned_read_raises by (simp add: poisoned_read_def)
  from handler_exception_contained [OF h] show ?thesis
    using h by blast
qed


subsection \<open>The output holds encoded responses only (C3)\<close>

lemma handleRequest_total: "request \<noteq> JNull \<Longrightarrow> \<exists>w'. handleRequest S request ans w = Inr w'"
  by (auto simp: handleRequest_def Let_def split: sum.splits option.splits)

lemma handleRequest_stdout:
  assumes "handleRequest S request ans w = Inr w'"
  shows "stdout w' = stdout w \<or> (\<exists>r. stdout w' = stdout w @ [stringify (response_json r) @ [LF]])"
proof -
  let ?w0 = "console_error (HandlingRequest (opt_prop (Some request) ''method'')) w"
  from assms have nn: "request \<noteq> JNull"
    by (auto simp: handleRequest_def)
  show ?thesis
  proof (cases "handleRequest_try S request ans ?w0")
    case (Inl e)
    with assms nn show ?thesis
      by (auto simp: handleRequest_def stdout_sendResponse)
  next
    case (Inr p)
    obtain w1 out where p: "p = (w1, out)" by (cases p)
    show ?thesis
    proof (cases out)
      case None
      with Inr p have "stdout w1 = stdout ?w0"
        using handleRequest_try_None by blast
      with Inr p None assms nn show ?thesis
        by (auto simp: handleRequest_def)
    next
      case (Some r)
      with Inr p have "stdout w1 = stdout ?w0"
        using handleRequest_try_Some by blast
      with Inr p Some assms nn show ?thesis
        by (auto simp: handleRequest_def stdout_sendResponse)
    qed
  qed
qed

lemma on_line_stdout:
  "on_line S P line ans w = Inr w' \<Longrightarrow>
     \<exists>rs. stdout w' = stdout w @ map (\<lambda>r. stringify (response_json r) @ [LF]) rs"
proof -
  assume a: "on_line S P line ans w = Inr w'"
  then consider "stdout w' = stdout w" | r where "stdout w' = stdout w @ [stringify (response_json r) @ [LF]]"
    by (auto simp: on_line_def split: if_splits option.splits dest: handleRequest_stdout)
  then show ?thesis
  proof cases
    case 1
    then have "stdout w' = stdout w @ map (\<lambda>r. stringify (response_json r) @ [LF]) []" by simp
    then show ?thesis by blast
  next
    case 2
    then have "stdout w' = stdout w @ map (\<lambda>r. stringify (response_json r) @ [LF]) [r]" by simp
    then show ?thesis by blast
  qed
qed

lemma serve_stdout:
  "\<exists>rs. stdout (fst (serve S P ls w)) = stdout w @ map (\<lambda>r. stringify (response_json r) @ [LF]) rs"
proof (induction ls arbitrary: w)
  case Nil
  have "stdout (fst (serve S P [] w)) = stdout w @ map (\<lambda>r. stringify (response_json r) @ [LF]) []"
    by simp
  then show ?case by blast
next
  case (Cons la ls)
  obtain line ans where la: "la = (line, ans)" by (cases la)
  show ?case
  proof (cases "on_line S P line ans w")
    case (Inl e)
    with la have "stdout (fst (serve S P (la # ls) w)) = stdout w @ map (\<lambda>r. stringify (response_json r) @ [LF]) []"
      by simp
    then show ?thesis by blast
  next
    case (Inr w1)
    from on_line_stdout [OF Inr] obtain rs1
      where 1: "stdout w1 = stdout w @ map (\<lambda>r. stringify (response_json r) @ [LF]) rs1" by blast
    from Cons.IH [of w1] obtain rs2
      where 2: "stdout (fst (serve S P ls w1)) = stdout w1 @ map (\<lambda>r. stringify (response_json r) @ [LF]) rs2"
      by blast
    from la Inr 1 2
    have "stdout (fst (serve S P (la # ls) w)) = stdout w @ map (\<lambda>r. stringify (response_json r) @ [LF]) (rs1 @ rs2)"
      by simp
    then show ?thesis by blast
  qed
qed

text \<open>
  Claim C3. \<^verbatim>\<open>sendResponse\<close> appends one chunk to the output, the encoded response followed
  by one line feed; the encoding holds no line feed and no carriage return; the diagnostic
  channel is left alone. Whatever lines the server reads, its output is a sequence of such
  chunks and nothing else.
\<close>

theorem sendResponse_one_line:
  "stdout (sendResponse r w) = stdout w @ [stringify (response_json r) @ [LF]]
   \<and> LF \<notin> set (stringify (response_json r))
   \<and> CR \<notin> set (stringify (response_json r))
   \<and> stderr (sendResponse r w) = stderr w
   \<and> (\<exists>rs. stdout (fst (serve S P ls w0))
             = stdout w0 @ map (\<lambda>r. stringify (response_json r) @ [LF]) rs)"
  using stringify_printable [of LF] stringify_printable [of CR] control_LF control_CR
    serve_stdout [of S P ls w0]
  by (auto simp: sendResponse_def)

subsection \<open>Unknown tools (C4)\<close>

lemma handleToolCall_name:
  "(if truthy (opt_prop (Some request) ''params'') then opt_prop (opt_prop (Some request) ''params'') k else None)
     = opt_prop (opt_prop (Some request) ''params'') k"
  by (cases "opt_prop (Some request) ''params''" rule: truthy.cases) auto

lemma handleToolCall_unknown:
  assumes "requested_tool request \<notin> (\<lambda>n. Some (JStr n)) ` set registered_tools"
  shows "handleToolCall S request ans w =
           (case toString_val (requested_tool request) of
              Inl e \<Rightarrow> Inl e
            | Inr n \<Rightarrow> Inr (w, Response (opt_prop (Some request) ''id'')
                                (Error (- 32602) (''Unknown tool: '' @ n))))"
  using assms
  by (simp add: handleToolCall_def Let_def handleToolCall_name requested_tool_def registered_tools_def)

text \<open>
  Claim C4, amended. A \<^verbatim>\<open>tools/call\<close> whose tool name is none of the six registered names
  and has a conversion to a string (every string, number, boolean and \<^verbatim>\<open>null\<close>, an absent name,
  printed \<^verbatim>\<open>undefined\<close>, and every array or object in which no object has a property
  \<^verbatim>\<open>toString\<close> of its own) is answered with the error -32602 and the message
  \<^verbatim>\<open>Unknown tool:\<close> followed by the name, not with -32603.
\<close>

theorem unknown_tool_invalid_params:
  assumes "opt_prop (Some request) ''method'' = Some (JStr ''tools/call'')"
    and "requested_tool request \<notin> (\<lambda>n. Some (JStr n)) ` set registered_tools"
    and "toString_val (requested_tool request) = Inr n"
  shows "handleRequest S request ans w =
           Inr (sendResponse
                  (Response (opt_prop (Some request) ''id'') (Error (- 32602) (''Unknown tool: '' @ n)))
                  (console_error (HandlingRequest (Some (JStr ''tools/call''))) w))"
proof -
  from assms(1) have "request \<noteq> JNull" by auto
  with assms show ?thesis
    by (simp add: handleRequest_def handleRequest_try_def Let_def handleToolCall_unknown)
qed

theorem unknown_tool_invalid_params_witness:
  "opt_prop (Some unknown_tool_call) ''method'' = Some (JStr ''tools/call'')
   \<and> requested_tool unknown_tool_call \<notin> (\<lambda>n. Some (JStr n)) ` set registered_tools
   \<and> toString_val (requested_tool unknown_tool_call) = Inr ''nonexistent_tool''
   \<and> handleRequest sample_statics unknown_tool_call (provider_returns []) initial_world =
           Inr (sendResponse
                  (Response (opt_prop (Some unknown_tool_call) ''id'')
                     (Error (- 32602) (''Unknown tool: '' @ ''nonexistent_tool'')))
                  (console_error (HandlingRequest (Some (JStr ''tools/call''))) initial_world))"
proof -
  have 1: "opt_prop (Some unknown_tool_call) ''method'' = Some (JStr ''tools/call'')"
    by (simp add: unknown_tool_call_def)
  have 2: "requested_tool unknown_tool_call \<notin> (\<lambda>n. Some (JStr n)) ` set registered_tools"
    by (simp add: unknown_tool_call_def requested_tool_def registered_tools_def)
  have 3: "toString_val (requested_tool unknown_tool_call) = Inr ''nonexistent_tool''"
    by (simp add: unknown_tool_call_def requested_tool_def)
  from unknown_tool_invalid_params [OF 1 2 3] show ?thesis
    using 1 2 3 by blast
qed

text \<open>
  Claim C4 as stated fails: \<^verbatim>\<open>params\<close> is not validated, and the message of the default case
  is built outside any \<^verbatim>\<open>try\<close> of \<^verbatim>\<open>handleToolCall\<close>. A tool name that is an object with a
  property \<^verbatim>\<open>toString\<close> is none of the six names, its conversion raises, and the \<^verbatim>\<open>catch\<close> of
  the router answers with -32603.
\<close>

theorem unknown_tool_internal_error_counterexample:
  "opt_prop (Some poisoned_tool_call) ''method'' = Some (JStr ''tools/call'')
   \<and> requested_tool poisoned_tool_call = Some (JObj [(''toString'', JNum 1)])
   \<and> requested_tool poisoned_tool_call \<notin> (\<lambda>n. Some (JStr n)) ` set registered_tools
   \<and> handleRequest sample_statics poisoned_tool_call (provider_returns []) initial_world =
         Inr (sendResponse
                (Response (Some (JNum 51)) (Error (- 32603) ''Cannot convert object to primitive value''))
                (console_error (HandlingRequest (Some (JStr ''tools/call''))) initial_world))"
proof -
  have 2: "requested_tool poisoned_tool_call \<notin> (\<lambda>n. Some (JStr n)) ` set registered_tools"
    by (simp add: poisoned_tool_call_def requested_tool_def registered_tools_def)
  have "handleToolCall sample_statics poisoned_tool_call ans w
          = Inl (JsError ''Cannot convert object to primitive value'')" for ans w
    by (simp add: handleToolCall_unknown [OF 2]) (simp add: poisoned_tool_call_def requested_tool_def)
  then show ?thesis using 2
    by (simp add: handleRequest_def handleRequest_try_def Let_def)
       (simp add: poisoned_tool_call_def requested_tool_def)
qed

subsection \<open>Failures of the provider (C5)\<close>

lemma provider_calls_simps [simp]:
  "provider_calls (console_error d w) = provider_calls w"
  "provider_calls (call_provider c w) = provider_calls w @ [c]"
  "provider_calls (conversations_set k h w) = provider_calls w"
  by (simp_all add: console_error_def call_provider_def conversations_set_def)









lemma lookup_default: "lookup_model ''gemini-3-pro-preview'' = OwnModel (snd (hd GEMINI_MODELS))"
  by (simp add: lookup_model_def GEMINI_MODELS_def)




subsection \<open>Required arguments (C6)\<close>

lemma handleToolCall_analyzeImage:
  "requested_tool request = Some (JStr ''analyze_image'') \<Longrightarrow>
   handleToolCall S request ans w
     = Inr (analyzeImage S (opt_prop (Some request) ''id'') (tool_arguments request) ans w)"
  by (simp add: handleToolCall_def Let_def handleToolCall_name tool_arguments_def requested_tool_def)

text \<open>
  Claim C6, amended. An \<^verbatim>\<open>analyze_image\<close> call that supplies neither \<^verbatim>\<open>imageUrl\<close> nor
  \<^verbatim>\<open>imageBase64\<close> is answered, without any call to the provider, by a result with
  \<^verbatim>\<open>isError: true\<close> and the text \<^verbatim>\<open>Image analysis failed:\<close> followed by the message.
\<close>

theorem analyze_image_needs_an_image:
  assumes "requested_tool request = Some (JStr ''analyze_image'')"
    and "\<not> truthy (opt_prop (tool_arguments request) ''imageUrl'')"
    and "\<not> truthy (opt_prop (tool_arguments request) ''imageBase64'')"
  shows "handleToolCall S request ans w =
           (let e = (case get_prop (tool_arguments request) ''model'' of
                       Inl e \<Rightarrow> e
                     | Inr m \<Rightarrow> JsError ''Either imageUrl or imageBase64 must be provided'')
            in Inr (console_error (ErrorIn ''analyzeImage'' e) w,
                    Response (opt_prop (Some request) ''id'')
                      (Result (JObj [(''content'',
                                        text_content (''Image analysis failed: ''
                                                      @ message_or ''Unknown error'' e)),
                                     (''isError'', JBool True)]))))"
  using assms
  by (simp add: handleToolCall_analyzeImage analyzeImage_def analyzeImage_try_def Let_def
      tool_error_def split: sum.splits)

theorem analyze_image_needs_an_image_witness:
  "requested_tool analyze_without_image = Some (JStr ''analyze_image'')
   \<and> \<not> truthy (opt_prop (tool_arguments analyze_without_image) ''imageUrl'')
   \<and> \<not> truthy (opt_prop (tool_arguments analyze_without_image) ''imageBase64'')
   \<and> handleToolCall sample_statics analyze_without_image (provider_returns ''A cat'') initial_world =
        Inr (console_error
               (ErrorIn ''analyzeImage'' (JsError ''Either imageUrl or imageBase64 must be provided''))
               initial_world,
             Response (Some (JNum 3))
               (Result (JObj [(''content'',
                                 text_content ''Image analysis failed: Either imageUrl or imageBase64 must be provided''),
                              (''isError'', JBool True)])))"
proof -
  have 1: "requested_tool analyze_without_image = Some (JStr ''analyze_image'')"
    and 2: "\<not> truthy (opt_prop (tool_arguments analyze_without_image) ''imageUrl'')"
    and 3: "\<not> truthy (opt_prop (tool_arguments analyze_without_image) ''imageBase64'')"
    by (simp_all add: analyze_without_image_def requested_tool_def tool_arguments_def)
  from analyze_image_needs_an_image [OF 1 2 3, of sample_statics "provider_returns ''A cat''" initial_world]
  have "handleToolCall sample_statics analyze_without_image (provider_returns ''A cat'') initial_world =
        Inr (console_error
               (ErrorIn ''analyzeImage'' (JsError ''Either imageUrl or imageBase64 must be provided''))
               initial_world,
             Response (Some (JNum 3))
               (Result (JObj [(''content'',
                                 text_content ''Image analysis failed: Either imageUrl or imageBase64 must be provided''),
                              (''isError'', JBool True)])))"
    by (simp add: analyze_without_image_def tool_arguments_def)
  with 1 2 3 show ?thesis by blast
qed

text \<open>
  Claim C6 as stated fails: an \<^verbatim>\<open>analyze_image\<close> call with both \<^verbatim>\<open>imageUrl\<close> and
  \<^verbatim>\<open>imageBase64\<close> is not rejected (the URL is used), and a \<^verbatim>\<open>generate_text\<close> call without
  \<^verbatim>\<open>prompt\<close> is passed to the provider with the text \<^verbatim>\<open>undefined\<close>; when the provider
  answers, both responses are ordinary results.
\<close>

theorem required_fields_unchecked_counterexample:
  "handleToolCall sample_statics analyze_both (provider_returns ''A cat'') initial_world =
     Inr (call_provider
            (GenerateContent (JStr ''gemini-3-pro-preview'')
               [\<lparr>parts = [TextPart (Some (JStr ''What is this?'')),
                          TextPart (Some (JStr ''[Image URL: https://example.com/cat.png]''))],
                 role = ''user''\<rparr>] None)
            initial_world,
          Response (Some (JNum 1)) (Result (JObj [(''content'', text_content ''A cat'')])))
   \<and> handleToolCall sample_statics generate_without_prompt (provider_returns ''Hi'') initial_world =
     Inr (call_provider
            (GenerateContent (JStr ''gemini-3-pro-preview'') [user_content None] (Some default_config))
            initial_world,
          Response (Some (JNum 2))
            (Result (JObj [(''content'', text_content ''Hi''),
                           (''metadata'', JObj [(''model'', JStr ''gemini-3-pro-preview''),
                                                (''candidatesCount'', JNum 1)])])))"
  by (simp add: handleToolCall_def analyze_both_def generate_without_prompt_def Let_def
      analyzeImage_def analyzeImage_try_def imagePart_def generateText_def generateText_try_def
      DEFAULT_MODEL_def sample_statics_def or_default_def lookup_default generateText_config_def
      provider_returns_def obj_def default_config_def GEMINI_MODELS_def)

subsection \<open>The context of a conversation (C7)\<close>

lemma conversations_simps [simp]:
  "conversations (console_error d w) = conversations w"
  "conversations (call_provider c w) = conversations w"
  "conversations (sendResponse r w) = conversations w"
  by (simp_all add: console_error_def call_provider_def sendResponse_def)

lemma history_of_simps [simp]:
  "history_of (console_error d w) cid = history_of w cid"
  "history_of (call_provider c w) cid = history_of w cid"
  by (cases cid; simp add: history_of_def conversations_get_def)+

lemma generateText_try_success:
  assumes "generateText_try S i args ans w = Inr (w', r)"
    and "opt_prop args ''conversationId'' = Some k" and "truthy (Some k)" and "by_value k"
  shows "\<exists>m c res. on_generateContent ans = Inr res
           \<and> provider_calls w' = provider_calls w
                @ [GenerateContent m (history_of w (Some k) @ [user_content (opt_prop args ''prompt'')]) c]
           \<and> conversations w' = (conversations w)(k \<mapsto> history_of w (Some k)
                @ [user_content (opt_prop args ''prompt''),
                   model_content (case r_text res of None \<Rightarrow> [] | Some t \<Rightarrow> t)])"
  using assms
  by (auto simp: generateText_try_def Let_def conversations_set_def
           split: sum.splits if_splits)

text \<open>
  Claim C7, amended. Of two successful \<^verbatim>\<open>generate_text\<close> calls in a row with the same
  conversation identifier (a truthy string, number or boolean), the first sends the turns stored
  so far followed by its user turn, and the second sends those stored turns, the first call's
  user turn, the first call's model turn and its own user turn, in this order. Nothing is
  stored under an identifier not seen before, so then the first call sends its user turn alone.
\<close>

theorem second_call_context:
  assumes "generateText_try S i1 args1 ans1 w = Inr (w1, r1)"
    and "generateText_try S i2 args2 ans2 w1 = Inr (w2, r2)"
    and "opt_prop args1 ''conversationId'' = Some k"
    and "opt_prop args2 ''conversationId'' = Some k"
    and "truthy (Some k)" and "by_value k"
    and "on_generateContent ans1 = Inr res1"
  shows "\<exists>m1 c1 m2 c2.
           provider_calls w1 = provider_calls w
             @ [GenerateContent m1 (history_of w (Some k) @ [user_content (opt_prop args1 ''prompt'')]) c1]
         \<and> provider_calls w2 = provider_calls w1
             @ [GenerateContent m2
                  (history_of w (Some k)
                     @ [user_content (opt_prop args1 ''prompt''),
                        model_content (case r_text res1 of None \<Rightarrow> [] | Some t \<Rightarrow> t),
                        user_content (opt_prop args2 ''prompt'')]) c2]
         \<and> (conversations w k = None \<longrightarrow> history_of w (Some k) = [])"
proof -
  from generateText_try_success [OF assms(1,3,5,6)] assms(7)
  obtain m1 c1 where 1: "provider_calls w1 = provider_calls w
         @ [GenerateContent m1 (history_of w (Some k) @ [user_content (opt_prop args1 ''prompt'')]) c1]"
    and conv: "conversations w1 = (conversations w)(k \<mapsto> history_of w (Some k)
                @ [user_content (opt_prop args1 ''prompt''),
                   model_content (case r_text res1 of None \<Rightarrow> [] | Some t \<Rightarrow> t)])"
    by auto
  from conv assms(6) have h1: "history_of w1 (Some k) = history_of w (Some k)
                @ [user_content (opt_prop args1 ''prompt''),
                   model_content (case r_text res1 of None \<Rightarrow> [] | Some t \<Rightarrow> t)]"
    by (simp add: history_of_def conversations_get_def)
  from generateText_try_success [OF assms(2,4,5,6)]
  obtain m2 c2 where "provider_calls w2 = provider_calls w1
         @ [GenerateContent m2 (history_of w1 (Some k) @ [user_content (opt_prop args2 ''prompt'')]) c2]"
    by auto
  with h1 have 2: "provider_calls w2 = provider_calls w1
             @ [GenerateContent m2
                  (history_of w (Some k)
                     @ [user_content (opt_prop args1 ''prompt''),
                        model_content (case r_text res1 of None \<Rightarrow> [] | Some t \<Rightarrow> t),
                        user_content (opt_prop args2 ''prompt'')]) c2]"
    by simp
  have 3: "conversations w k = None \<longrightarrow> history_of w (Some k) = []"
    by (simp add: history_of_def conversations_get_def)
  show ?thesis
    apply (rule exI [of _ m1], rule exI [of _ c1], rule exI [of _ m2], rule exI [of _ c2])
    using 1 2 3 apply simp
    done
qed

lemma sample_try:
  "opt_prop (Some (JObj kvs)) ''model'' = None \<Longrightarrow>
   opt_prop (Some (JObj kvs)) ''grounding'' = None \<Longrightarrow>
   opt_prop (Some (JObj kvs)) ''thinkingLevel'' = None \<Longrightarrow>
   generateText_try sample_statics i (Some (JObj kvs)) (provider_returns t) w
     = Inr (generateText sample_statics i (Some (JObj kvs)) (provider_returns t) w)"
  by (simp add: generateText_def generateText_try_def Let_def
      DEFAULT_MODEL_def sample_statics_def or_default_def lookup_model_def GEMINI_MODELS_def
      generateText_config_def provider_returns_def)

lemma after_first_calls:
  "provider_calls after_first =
     [GenerateContent (JStr ''gemini-3-pro-preview'')
        [user_content (Some (JStr ''My name is Alice.''))] (Some default_config)]"
  by (simp add: after_first_def generateText_def generateText_try_def Let_def first_arguments_def
      DEFAULT_MODEL_def sample_statics_def or_default_def lookup_model_def GEMINI_MODELS_def
      generateText_config_def provider_returns_def initial_world_def history_of_def
      conversations_get_def obj_def default_config_def call_provider_def conversations_set_def)

lemma history_of_set [simp]:
  "by_value k \<Longrightarrow> history_of (conversations_set k h w) (Some k) = h"
  by (simp add: history_of_def conversations_get_def conversations_set_def)

lemma history_of_initial [simp]: "history_of initial_world cid = []"
  by (cases cid) (simp_all add: history_of_def conversations_get_def initial_world_def)

lemma sample_generate:
  assumes "cid \<noteq> []"
  shows "fst (generateText sample_statics i
                (Some (JObj [(''prompt'', JStr p), (''conversationId'', JStr cid)]))
                (provider_returns t) w)
         = conversations_set (JStr cid)
             (history_of w (Some (JStr cid)) @ [user_content (Some (JStr p)), model_content t])
             (call_provider
                (GenerateContent (JStr ''gemini-3-pro-preview'')
                   (history_of w (Some (JStr cid)) @ [user_content (Some (JStr p))])
                   (Some default_config)) w)"
  using assms
  by (cases "history_of w (Some (JStr cid))")
     (simp_all add: generateText_def generateText_try_def Let_def
      DEFAULT_MODEL_def sample_statics_def or_default_def lookup_model_def GEMINI_MODELS_def
      generateText_config_def provider_returns_def obj_def default_config_def)

lemma after_second_calls:
  "provider_calls after_second =
     [GenerateContent (JStr ''gemini-3-pro-preview'')
        [user_content (Some (JStr ''My name is Alice.''))] (Some default_config),
      GenerateContent (JStr ''gemini-3-pro-preview'')
        [user_content (Some (JStr ''My name is Alice.'')), model_content ''Hello, Alice.'',
         user_content (Some (JStr ''What is my name?''))] (Some default_config)]"
  by (simp add: after_second_def after_first_def first_arguments_def second_arguments_def
      sample_generate) (simp add: initial_world_def)

text \<open>
  Claim C7 as stated fails for the second and third call of a conversation: the third call
  sends five turns, the first two of which belong to neither of these two calls.
\<close>

theorem third_call_context_counterexample:
  "provider_calls after_third =
     [GenerateContent (JStr ''gemini-3-pro-preview'')
        [user_content (Some (JStr ''My name is Alice.''))] (Some default_config),
      GenerateContent (JStr ''gemini-3-pro-preview'')
        [user_content (Some (JStr ''My name is Alice.'')), model_content ''Hello, Alice.'',
         user_content (Some (JStr ''What is my name?''))] (Some default_config),
      GenerateContent (JStr ''gemini-3-pro-preview'')
        [user_content (Some (JStr ''My name is Alice.'')), model_content ''Hello, Alice.'',
         user_content (Some (JStr ''What is my name?'')), model_content ''Your name is Alice.'',
         user_content (Some (JStr ''Spell it.''))] (Some default_config)]
   \<and> [user_content (Some (JStr ''My name is Alice.'')), model_content ''Hello, Alice.'',
       user_content (Some (JStr ''What is my name?'')), model_content ''Your name is Alice.'',
       user_content (Some (JStr ''Spell it.''))]
     \<noteq> [user_content (Some (JStr ''What is my name?'')), model_content ''Your name is Alice.'',
        user_content (Some (JStr ''Spell it.''))]"
  by (simp add: after_third_def after_second_def after_first_def first_arguments_def
      second_arguments_def third_arguments_def sample_generate) (simp add: initial_world_def)

theorem second_call_context_witness:
  "generateText_try sample_statics (Some (JNum 112)) (Some first_arguments)
       (provider_returns ''Hello, Alice.'') initial_world
     = Inr (after_first,
            snd (generateText sample_statics (Some (JNum 112)) (Some first_arguments)
                   (provider_returns ''Hello, Alice.'') initial_world))
   \<and> generateText_try sample_statics (Some (JNum 113)) (Some second_arguments)
       (provider_returns ''Your name is Alice.'') after_first
     = Inr (after_second,
            snd (generateText sample_statics (Some (JNum 113)) (Some second_arguments)
                   (provider_returns ''Your name is Alice.'') after_first))
   \<and> opt_prop (Some first_arguments) ''conversationId'' = Some (JStr ''test-conv-1'')
   \<and> opt_prop (Some second_arguments) ''conversationId'' = Some (JStr ''test-conv-1'')
   \<and> truthy (Some (JStr ''test-conv-1'')) \<and> by_value (JStr ''test-conv-1'')
   \<and> on_generateContent (provider_returns ''Hello, Alice.'')
       = Inr \<lparr>r_text = Some ''Hello, Alice.'', r_totalTokenCount = None, r_candidates = None\<rparr>
   \<and> (\<exists>m1 c1 m2 c2.
           provider_calls after_first = provider_calls initial_world
             @ [GenerateContent m1
                  (history_of initial_world (Some (JStr ''test-conv-1''))
                     @ [user_content (opt_prop (Some first_arguments) ''prompt'')]) c1]
         \<and> provider_calls after_second = provider_calls after_first
             @ [GenerateContent m2
                  (history_of initial_world (Some (JStr ''test-conv-1''))
                     @ [user_content (opt_prop (Some first_arguments) ''prompt''),
                        model_content
                          (case r_text \<lparr>r_text = Some ''Hello, Alice.'', r_totalTokenCount = None,
                                       r_candidates = None\<rparr> of None \<Rightarrow> [] | Some t \<Rightarrow> t),
                        user_content (opt_prop (Some second_arguments) ''prompt'')]) c2]
         \<and> (conversations initial_world (JStr ''test-conv-1'') = None
              \<longrightarrow> history_of initial_world (Some (JStr ''test-conv-1'')) = []))
   \<and> conversations initial_world (JStr ''test-conv-1'') = None"
proof -
  have 1: "generateText_try sample_statics (Some (JNum 112)) (Some first_arguments)
       (provider_returns ''Hello, Alice.'') initial_world
     = Inr (after_first,
            snd (generateText sample_statics (Some (JNum 112)) (Some first_arguments)
                   (provider_returns ''Hello, Alice.'') initial_world))"
    by (simp add: first_arguments_def sample_try after_first_def)
  have 2: "generateText_try sample_statics (Some (JNum 113)) (Some second_arguments)
       (provider_returns ''Your name is Alice.'') after_first
     = Inr (after_second,
            snd (generateText sample_statics (Some (JNum 113)) (Some second_arguments)
                   (provider_returns ''Your name is Alice.'') after_first))"
    by (simp add: second_arguments_def sample_try after_second_def)
  have 3: "opt_prop (Some first_arguments) ''conversationId'' = Some (JStr ''test-conv-1'')"
    and 4: "opt_prop (Some second_arguments) ''conversationId'' = Some (JStr ''test-conv-1'')"
    and 5: "truthy (Some (JStr ''test-conv-1''))" and 6: "by_value (JStr ''test-conv-1'')"
    and 7: "on_generateContent (provider_returns ''Hello, Alice.'')
       = Inr \<lparr>r_text = Some ''Hello, Alice.'', r_totalTokenCount = None, r_candidates = None\<rparr>"
    and 8: "conversations initial_world (JStr ''test-conv-1'') = None"
    by (simp_all add: first_arguments_def second_arguments_def provider_returns_def initial_world_def)
  from second_call_context [OF 1 2 3 4 5 6 7] 1 2 3 4 5 6 7 8
  show ?thesis by blast
qed

subsection \<open>The roles of the stored turns (C8)\<close>

lemma imagePart_conversations:
  "imagePart args w = Inr (w', p) \<Longrightarrow> conversations w' = conversations w"
  "imagePart args w = Inl (e, w') \<Longrightarrow> conversations w' = conversations w"
  by (auto simp: imagePart_def Let_def split: sum.splits option.splits if_splits json.splits)

lemma analyzeImage_conversations:
  "analyzeImage S i args ans w = (w', r) \<Longrightarrow> conversations w' = conversations w"
  by (auto simp: analyzeImage_def analyzeImage_try_def Let_def
           split: sum.splits option.splits if_splits prod.splits dest: imagePart_conversations)

lemma countTokens_conversations:
  "countTokens S i args ans w = (w', r) \<Longrightarrow> conversations w' = conversations w"
  by (auto simp: countTokens_def countTokens_try_def Let_def split: sum.splits)

lemma embedText_conversations:
  "embedText i args ans w = (w', r) \<Longrightarrow> conversations w' = conversations w"
  by (auto simp: embedText_def embedText_try_def Let_def split: sum.splits)

lemma generateText_try_keeps:
  assumes "generateText_try S i args ans w = Inr (w', r)"
    and "\<not> (truthy (opt_prop args ''conversationId'')
             \<and> (\<exists>k. opt_prop args ''conversationId'' = Some k \<and> by_value k))"
  shows "conversations w' = conversations w"
  using assms
  by (auto simp: generateText_try_def Let_def conversations_set_def
           split: sum.splits option.splits if_splits)

lemma generateText_try_raises_keeps:
  "generateText_try S i args ans w = Inl (e, w') \<Longrightarrow> conversations w' = conversations w"
  by (auto simp: generateText_try_def Let_def split: sum.splits option.splits if_splits)

lemma generateText_conversations:
  assumes "generateText S i args ans w = (w', r)"
  shows "conversations w' = conversations w
     \<or> (\<exists>k p t. conversations w'
           = (conversations w)(k \<mapsto> history_of w (Some k) @ [user_content p, model_content t]))"
proof (cases "generateText_try S i args ans w")
  case (Inl ew)
  obtain e w1 where "ew = (e, w1)" by (cases ew)
  with Inl assms generateText_try_raises_keeps [of S i args ans w e w1] show ?thesis
    by (auto simp: generateText_def)
next
  case (Inr p)
  with assms have ok: "generateText_try S i args ans w = Inr (w', r)"
    by (simp add: generateText_def)
  show ?thesis
  proof (cases "truthy (opt_prop args ''conversationId'')
             \<and> (\<exists>k. opt_prop args ''conversationId'' = Some k \<and> by_value k)")
    case True
    then obtain k where "opt_prop args ''conversationId'' = Some k" "truthy (Some k)" "by_value k"
      by auto
    from generateText_try_success [OF ok this] show ?thesis by blast
  next
    case False
    from generateText_try_keeps [OF ok False] show ?thesis by simp
  qed
qed

lemma handleToolCall_conversations:
  "handleToolCall S request ans w = Inr (w', r) \<Longrightarrow>
     conversations w' = conversations w
     \<or> (\<exists>k p t. conversations w'
           = (conversations w)(k \<mapsto> history_of w (Some k) @ [user_content p, model_content t]))"
  by (auto simp: handleToolCall_def Let_def split: if_splits sum.splits
           dest: generateText_conversations analyzeImage_conversations countTokens_conversations
                 embedText_conversations)

lemma handleRequest_try_conversations:
  "handleRequest_try S request ans w = Inr (w', out) \<Longrightarrow>
     conversations w' = conversations w
     \<or> (\<exists>k p t. conversations w'
           = (conversations w)(k \<mapsto> history_of w (Some k) @ [user_content p, model_content t]))"
  by (auto simp: handleRequest_try_def Let_def split: if_splits sum.splits
           dest: handleToolCall_conversations)

lemma handleRequest_conversations:
  assumes "handleRequest S request ans w = Inr w'"
  shows "conversations w' = conversations w
     \<or> (\<exists>k p t. conversations w'
           = (conversations w)(k \<mapsto> history_of w (Some k) @ [user_content p, model_content t]))"
proof -
  let ?w0 = "console_error (HandlingRequest (opt_prop (Some request) ''method'')) w"
  from assms have nn: "request \<noteq> JNull"
    by (auto simp: handleRequest_def)
  show ?thesis
  proof (cases "handleRequest_try S request ans ?w0")
    case (Inl e)
    with assms nn show ?thesis
      by (auto simp: handleRequest_def)
  next
    case (Inr p)
    obtain w1 out where p: "p = (w1, out)" by (cases p)
    from Inr p handleRequest_try_conversations [of S request ans ?w0 w1 out]
    have "conversations w1 = conversations w
     \<or> (\<exists>k p t. conversations w1
           = (conversations w)(k \<mapsto> history_of w (Some k) @ [user_content p, model_content t]))"
      by simp
    moreover from Inr p assms nn have "conversations w' = conversations w1"
      by (cases out) (auto simp: handleRequest_def)
    ultimately show ?thesis by simp
  qed
qed

lemma on_line_conversations:
  "on_line S P line ans w = Inr w' \<Longrightarrow>
     conversations w' = conversations w
     \<or> (\<exists>k p t. conversations w'
           = (conversations w)(k \<mapsto> history_of w (Some k) @ [user_content p, model_content t]))"
  by (auto simp: on_line_def split: if_splits option.splits dest: handleRequest_conversations)

lemma roles_step:
  assumes inv: "\<And>k h c. conversations w k = Some h \<Longrightarrow> c \<in> set h
                  \<Longrightarrow> role c = ''user'' \<or> role c = ''model''"
    and step: "conversations w' = conversations w
     \<or> (\<exists>k p t. conversations w'
           = (conversations w)(k \<mapsto> history_of w (Some k) @ [user_content p, model_content t]))"
    and stored: "conversations w' k' = Some h'" and mem: "c' \<in> set h'"
  shows "role c' = ''user'' \<or> role c' = ''model''"
proof -
  have old: "role c = ''user'' \<or> role c = ''model''" if "c \<in> set (history_of w (Some k))" for c k
  proof -
    from that obtain h where "conversations w k = Some h" and "c \<in> set h"
      by (cases "conversations w k")
         (auto simp: history_of_def conversations_get_def split: if_splits)
    then show ?thesis by (rule inv)
  qed
  from step show ?thesis
  proof
    assume "conversations w' = conversations w"
    with inv stored mem show ?thesis by simp
  next
    assume "\<exists>k p t. conversations w'
           = (conversations w)(k \<mapsto> history_of w (Some k) @ [user_content p, model_content t])"
    then obtain k p t where c: "conversations w'
           = (conversations w)(k \<mapsto> history_of w (Some k) @ [user_content p, model_content t])"
      by blast
    show ?thesis
    proof (cases "k' = k")
      case True
      with c stored mem old [of c' k] show ?thesis
        by (auto simp: user_content_def model_content_def)
    next
      case False
      with c stored mem inv show ?thesis by simp
    qed
  qed
qed

lemma serve_roles:
  assumes "\<And>k h c. conversations w k = Some h \<Longrightarrow> c \<in> set h
                  \<Longrightarrow> role c = ''user'' \<or> role c = ''model''"
    and "conversations (fst (serve S P ls w)) k' = Some h'" and "c' \<in> set h'"
  shows "role c' = ''user'' \<or> role c' = ''model''"
  using assms
proof (induction ls arbitrary: w)
  case Nil
  then show ?case by simp
next
  case (Cons la ls)
  obtain line ans where la: "la = (line, ans)" by (cases la)
  show ?case
  proof (cases "on_line S P line ans w")
    case (Inl e)
    with Cons.prems la show ?thesis by simp
  next
    case (Inr w1)
    have "role c = ''user'' \<or> role c = ''model''"
      if "conversations w1 k = Some h" and "c \<in> set h" for k h c
      using roles_step [OF Cons.prems(1) on_line_conversations [OF Inr] that] by simp
    moreover from Cons.prems(2) la Inr have "conversations (fst (serve S P ls w1)) k' = Some h'"
      by simp
    ultimately show ?thesis
      using Cons.IH [of w1] Cons.prems(3) by blast
  qed
qed

text \<open>
  Claim C8, amended. A successful \<^verbatim>\<open>generate_text\<close> call with a conversation identifier
  appends two turns to the transcript, the first with role \<^verbatim>\<open>user\<close> and the second with role
  \<^verbatim>\<open>model\<close>, and leaves every other transcript alone. Whatever lines a freshly started server
  reads, every turn it has stored has the role \<^verbatim>\<open>user\<close> or \<^verbatim>\<open>model\<close>.
\<close>

theorem stored_turns_user_then_model:
  "(generateText_try S i args ans w = Inr (w', r)
      \<and> opt_prop args ''conversationId'' = Some k \<and> truthy (Some k) \<and> by_value k
    \<longrightarrow> (\<exists>t. conversations w'
            = (conversations w)(k \<mapsto> history_of w (Some k)
                @ [\<lparr>parts = [TextPart (opt_prop args ''prompt'')], role = ''user''\<rparr>,
                   \<lparr>parts = [TextPart (Some (JStr t))], role = ''model''\<rparr>])))
   \<and> (conversations (fst (serve S P ls initial_world)) k' = Some h \<and> c \<in> set h
    \<longrightarrow> role c = ''user'' \<or> role c = ''model'')"
proof (intro conjI impI)
  assume "generateText_try S i args ans w = Inr (w', r)
      \<and> opt_prop args ''conversationId'' = Some k \<and> truthy (Some k) \<and> by_value k"
  then show "\<exists>t. conversations w'
            = (conversations w)(k \<mapsto> history_of w (Some k)
                @ [\<lparr>parts = [TextPart (opt_prop args ''prompt'')], role = ''user''\<rparr>,
                   \<lparr>parts = [TextPart (Some (JStr t))], role = ''model''\<rparr>])"
    using generateText_try_success [of S i args ans w w' r k]
    by (auto simp: user_content_def model_content_def)
next
  assume "conversations (fst (serve S P ls initial_world)) k' = Some h \<and> c \<in> set h"
  then show "role c = ''user'' \<or> role c = ''model''"
    using serve_roles [of initial_world S P ls k' h c]
    by (simp add: initial_world_def)
qed

text \<open>
  Claim C8 as stated fails: the role stored with the provider's answer is \<^verbatim>\<open>model\<close>, which is
  not in the set of \<^verbatim>\<open>user\<close> and \<^verbatim>\<open>assistant\<close>.
\<close>

theorem assistant_role_counterexample:
  "map_option (map role) (conversations after_first (JStr ''test-conv-1'')) = Some [''user'', ''model'']
   \<and> ''model'' \<notin> {''user'', ''assistant''}"
  by (simp add: after_first_def first_arguments_def sample_generate conversations_set_def
      user_content_def model_content_def)

lemma first_line_run:
  "conversations (fst (serve sample_statics sample_parse
                         [(first_line, provider_returns ''Hello, Alice.'')] initial_world))
     = conversations after_first"
proof -
  have t: "trim first_line \<noteq> []"
    by (simp add: trim_def first_line_def js_whitespace_def)
  have p: "sample_parse first_line = Some first_call"
    by (simp add: sample_parse_def first_line_def ping_line_def)
  have c: "handleToolCall sample_statics first_call ans w
             = Inr (generateText sample_statics (Some (JNum 112)) (Some first_arguments) ans w)" for ans w
    by (simp add: handleToolCall_def first_call_def Let_def)
  have g: "conversations (fst (generateText sample_statics i (Some first_arguments) (provider_returns t) w))
             = (conversations w)(JStr ''test-conv-1'' \<mapsto> history_of w (Some (JStr ''test-conv-1''))
                  @ [user_content (Some (JStr ''My name is Alice.'')), model_content t])" for i t w
    by (simp add: first_arguments_def sample_generate conversations_set_def)
  have m: "opt_prop (Some first_call) ''method'' = Some (JStr ''tools/call'')"
    and nn: "first_call \<noteq> JNull"
    by (simp_all add: first_call_def)
  show ?thesis
    using t p m nn
    by (simp add: on_line_def handleRequest_def handleRequest_try_def Let_def c after_first_def g
          split_beta)
qed

theorem stored_turns_user_then_model_witness:
  "generateText_try sample_statics (Some (JNum 112)) (Some first_arguments)
       (provider_returns ''Hello, Alice.'') initial_world
     = Inr (after_first,
            snd (generateText sample_statics (Some (JNum 112)) (Some first_arguments)
                   (provider_returns ''Hello, Alice.'') initial_world))
   \<and> opt_prop (Some first_arguments) ''conversationId'' = Some (JStr ''test-conv-1'')
   \<and> truthy (Some (JStr ''test-conv-1'')) \<and> by_value (JStr ''test-conv-1'')
   \<and> (\<exists>t. conversations after_first
            = (conversations initial_world)(JStr ''test-conv-1'' \<mapsto>
                history_of initial_world (Some (JStr ''test-conv-1''))
                @ [\<lparr>parts = [TextPart (opt_prop (Some first_arguments) ''prompt'')], role = ''user''\<rparr>,
                   \<lparr>parts = [TextPart (Some (JStr t))], role = ''model''\<rparr>]))
   \<and> conversations (fst (serve sample_statics sample_parse
                            [(first_line, provider_returns ''Hello, Alice.'')] initial_world))
         (JStr ''test-conv-1'')
       = Some [user_content (Some (JStr ''My name is Alice.'')), model_content ''Hello, Alice.'']
   \<and> model_content ''Hello, Alice.''
       \<in> set [user_content (Some (JStr ''My name is Alice.'')), model_content ''Hello, Alice.'']
   \<and> (role (model_content ''Hello, Alice.'') = ''user''
       \<or> role (model_content ''Hello, Alice.'') = ''model'')"
proof -
  have 1: "generateText_try sample_statics (Some (JNum 112)) (Some first_arguments)
       (provider_returns ''Hello, Alice.'') initial_world
     = Inr (after_first,
            snd (generateText sample_statics (Some (JNum 112)) (Some first_arguments)
                   (provider_returns ''Hello, Alice.'') initial_world))
   \<and> opt_prop (Some first_arguments) ''conversationId'' = Some (JStr ''test-conv-1'')
   \<and> truthy (Some (JStr ''test-conv-1'')) \<and> by_value (JStr ''test-conv-1'')"
    by (simp add: first_arguments_def sample_try after_first_def)
  have 2: "conversations (fst (serve sample_statics sample_parse
                            [(first_line, provider_returns ''Hello, Alice.'')] initial_world))
         (JStr ''test-conv-1'')
       = Some [user_content (Some (JStr ''My name is Alice.'')), model_content ''Hello, Alice.'']
     \<and> model_content ''Hello, Alice.''
       \<in> set [user_content (Some (JStr ''My name is Alice.'')), model_content ''Hello, Alice.'']"
    by (simp only: first_line_run)
       (simp add: after_first_def first_arguments_def sample_generate conversations_set_def)
  note a = stored_turns_user_then_model
    [where S = sample_statics and i = "Some (JNum 112)" and args = "Some first_arguments"
       and ans = "provider_returns ''Hello, Alice.''" and w = initial_world and w' = after_first
       and k = "JStr ''test-conv-1''", THEN conjunct1, THEN mp, OF 1]
  note b = stored_turns_user_then_model
    [where S = sample_statics and P = sample_parse
       and ls = "[(first_line, provider_returns ''Hello, Alice.'')]"
       and k' = "JStr ''test-conv-1''" and c = "model_content ''Hello, Alice.''",
     THEN conjunct2, THEN mp, OF 2]
  from 1 2 a b show ?thesis by blast
qed

subsection \<open>Blank and unparsable lines (C9)\<close>

lemma without_diagnostics_simps [simp]:
  "without_diagnostics (without_diagnostics w) = without_diagnostics w"
  "without_diagnostics (console_error d w) = without_diagnostics w"
  "without_diagnostics (call_provider c w) = call_provider c (without_diagnostics w)"
  "without_diagnostics (conversations_set k h w) = conversations_set k h (without_diagnostics w)"
  "without_diagnostics (sendResponse r w) = sendResponse r (without_diagnostics w)"
  "history_of (without_diagnostics w) cid = history_of w cid"
  by (cases cid; simp add: without_diagnostics_def console_error_def call_provider_def
        conversations_set_def sendResponse_def history_of_def conversations_get_def)+

lemma generateText_try_diagnostics:
  "map_sum (apsnd without_diagnostics) (apfst without_diagnostics)
     (generateText_try S i args ans (without_diagnostics w))
   = map_sum (apsnd without_diagnostics) (apfst without_diagnostics)
       (generateText_try S i args ans w)"
  by (simp add: generateText_try_def Let_def split: sum.split option.split)

lemma generateText_diagnostics:
  "apfst without_diagnostics (generateText S i args ans (without_diagnostics w))
   = apfst without_diagnostics (generateText S i args ans w)"
  using generateText_try_diagnostics [of S i args ans w]
  by (auto simp: generateText_def split: sum.splits)

lemma imagePart_diagnostics:
  "map_sum (apsnd without_diagnostics) (apfst without_diagnostics)
     (imagePart args (without_diagnostics w))
   = map_sum (apsnd without_diagnostics) (apfst without_diagnostics) (imagePart args w)"
  by (simp add: imagePart_def Let_def split: sum.split option.split json.split)

lemma analyzeImage_try_diagnostics:
  "map_sum (apsnd without_diagnostics) (apfst without_diagnostics)
     (analyzeImage_try S i args ans (without_diagnostics w))
   = map_sum (apsnd without_diagnostics) (apfst without_diagnostics)
       (analyzeImage_try S i args ans w)"
  using imagePart_diagnostics [of args w]
  by (auto simp: analyzeImage_try_def Let_def split: sum.splits)

lemma analyzeImage_diagnostics:
  "apfst without_diagnostics (analyzeImage S i args ans (without_diagnostics w))
   = apfst without_diagnostics (analyzeImage S i args ans w)"
  using analyzeImage_try_diagnostics [of S i args ans w]
  by (auto simp: analyzeImage_def split: sum.splits)

lemma countTokens_diagnostics:
  "apfst without_diagnostics (countTokens S i args ans (without_diagnostics w))
   = apfst without_diagnostics (countTokens S i args ans w)"
  by (simp add: countTokens_def countTokens_try_def Let_def split: sum.split)

lemma embedText_diagnostics:
  "apfst without_diagnostics (embedText i args ans (without_diagnostics w))
   = apfst without_diagnostics (embedText i args ans w)"
  by (simp add: embedText_def embedText_try_def Let_def split: sum.split)

lemma handleToolCall_diagnostics:
  "map_sum id (apfst without_diagnostics) (handleToolCall S request ans (without_diagnostics w))
   = map_sum id (apfst without_diagnostics) (handleToolCall S request ans w)"
  by (simp add: handleToolCall_def Let_def generateText_diagnostics analyzeImage_diagnostics
      countTokens_diagnostics embedText_diagnostics split: sum.split)

lemma handleRequest_try_diagnostics:
  "map_sum id (apfst without_diagnostics) (handleRequest_try S request ans (without_diagnostics w))
   = map_sum id (apfst without_diagnostics) (handleRequest_try S request ans w)"
  using handleToolCall_diagnostics [of S request ans w]
  by (auto simp: handleRequest_try_def Let_def split: sum.splits)

lemma handleRequest_diagnostics:
  "map_sum id without_diagnostics (handleRequest S request ans (without_diagnostics w))
   = map_sum id without_diagnostics (handleRequest S request ans w)"
proof -
  let ?d = "HandlingRequest (opt_prop (Some request) ''method'')"
  have "map_sum id (apfst without_diagnostics)
          (handleRequest_try S request ans (console_error ?d (without_diagnostics w)))
        = map_sum id (apfst without_diagnostics)
            (handleRequest_try S request ans (console_error ?d w))"
    using handleRequest_try_diagnostics [of S request ans "console_error ?d (without_diagnostics w)"]
      handleRequest_try_diagnostics [of S request ans "console_error ?d w"]
    by simp
  then show ?thesis
    by (auto simp: handleRequest_def Let_def split: sum.splits option.splits)
qed

lemma on_line_diagnostics:
  "map_sum id without_diagnostics (on_line S P line ans (without_diagnostics w))
   = map_sum id without_diagnostics (on_line S P line ans w)"
  by (simp add: on_line_def handleRequest_diagnostics split: option.split)

lemma serve_diagnostics:
  "apfst without_diagnostics (serve S P ls (without_diagnostics w))
   = apfst without_diagnostics (serve S P ls w)"
proof (induction ls arbitrary: w)
  case Nil
  show ?case by simp
next
  case (Cons la ls)
  obtain line ans where la: "la = (line, ans)" by (cases la)
  show ?case
  proof (cases "on_line S P line ans w")
    case (Inl e)
    with on_line_diagnostics [of S P line ans w]
    have "on_line S P line ans (without_diagnostics w) = Inl e"
      by (cases "on_line S P line ans (without_diagnostics w)") simp_all
    with Inl la show ?thesis by simp
  next
    case (Inr w1)
    with on_line_diagnostics [of S P line ans w]
    obtain v1 where v1: "on_line S P line ans (without_diagnostics w) = Inr v1"
      and same: "without_diagnostics v1 = without_diagnostics w1"
      by (cases "on_line S P line ans (without_diagnostics w)") simp_all
    have "apfst without_diagnostics (serve S P ls v1)
            = apfst without_diagnostics (serve S P ls (without_diagnostics v1))"
      using Cons.IH [of v1] by simp
    also have "\<dots> = apfst without_diagnostics (serve S P ls w1)"
      using Cons.IH [of w1] same by simp
    finally show ?thesis
      using la Inr v1 by simp
  qed
qed

text \<open>
  Claim C9, amended. A line that is only white space changes nothing. A line on which
  \<^verbatim>\<open>JSON.parse\<close> raises adds one entry to the diagnostic channel and changes nothing else. In
  both cases nothing is written to the output, the process goes on, and the lines that follow
  are served from the state reached, with the responses they would have had without that
  line. A line that \<^verbatim>\<open>JSON.parse\<close> accepts is handed to the router whatever its value is, and
  is not among these.
\<close>

theorem malformed_line_no_response:
  assumes "trim line = [] \<or> JSON_parse line = None"
  shows "on_line S JSON_parse line ans w
           = Inr (if trim line = [] then w else console_error FailedToParse w)
       \<and> serve S JSON_parse ((line, ans) # rest) w
           = serve S JSON_parse rest (if trim line = [] then w else console_error FailedToParse w)
       \<and> apfst without_diagnostics (serve S JSON_parse ((line, ans) # rest) w)
           = apfst without_diagnostics (serve S JSON_parse rest w)"
proof -
  let ?w' = "if trim line = [] then w else console_error FailedToParse w"
  from assms have 1: "on_line S JSON_parse line ans w = Inr ?w'"
    by (auto simp: on_line_def)
  then have 2: "serve S JSON_parse ((line, ans) # rest) w = serve S JSON_parse rest ?w'"
    by simp
  have "apfst without_diagnostics (serve S JSON_parse rest ?w')
          = apfst without_diagnostics (serve S JSON_parse rest (without_diagnostics ?w'))"
    using serve_diagnostics [of S JSON_parse rest ?w'] by simp
  also have "\<dots> = apfst without_diagnostics (serve S JSON_parse rest w)"
    using serve_diagnostics [of S JSON_parse rest w] by simp
  finally show ?thesis
    using 1 2 by simp
qed

lemma stdout_without_diagnostics: "stdout (fst (apfst without_diagnostics p)) = stdout (fst p)"
  by (cases p) (simp add: without_diagnostics_def)

lemma trim_broken_line: "trim broken_line \<noteq> []"
  by (simp add: trim_def broken_line_def js_whitespace_def)

lemma parse_broken_line: "sample_parse broken_line = None"
  by (simp add: sample_parse_def broken_line_def ping_line_def first_line_def)

theorem malformed_line_no_response_witness:
  "(trim broken_line = [] \<or> sample_parse broken_line = None)
   \<and> trim broken_line \<noteq> []
   \<and> on_line sample_statics sample_parse broken_line (provider_returns []) initial_world
       = Inr (if trim broken_line = [] then initial_world
              else console_error FailedToParse initial_world)
   \<and> serve sample_statics sample_parse
        ((broken_line, provider_returns []) # [(ping_line, provider_returns [])]) initial_world
       = serve sample_statics sample_parse [(ping_line, provider_returns [])]
           (if trim broken_line = [] then initial_world
            else console_error FailedToParse initial_world)
   \<and> apfst without_diagnostics
        (serve sample_statics sample_parse
           ((broken_line, provider_returns []) # [(ping_line, provider_returns [])]) initial_world)
       = apfst without_diagnostics
           (serve sample_statics sample_parse [(ping_line, provider_returns [])] initial_world)
   \<and> stdout (fst (serve sample_statics sample_parse
                     [(broken_line, provider_returns []), (ping_line, provider_returns [])]
                     initial_world))
       = [pong_line @ [LF]]"
proof -
  have h: "trim broken_line = [] \<or> sample_parse broken_line = None"
    using parse_broken_line by simp
  note t = malformed_line_no_response
    [where line = broken_line and JSON_parse = sample_parse and S = sample_statics
       and ans = "provider_returns []" and rest = "[(ping_line, provider_returns [])]"
       and w = initial_world, OF h]
  have "stdout (fst (serve sample_statics sample_parse
                     [(broken_line, provider_returns []), (ping_line, provider_returns [])]
                     initial_world))
          = stdout (fst (apfst without_diagnostics
              (serve sample_statics sample_parse
                 ((broken_line, provider_returns []) # [(ping_line, provider_returns [])])
                 initial_world)))"
    by (simp only: stdout_without_diagnostics)
  also have "\<dots> = stdout (fst (apfst without_diagnostics
              (serve sample_statics sample_parse [(ping_line, provider_returns [])] initial_world)))"
    using t [THEN conjunct2, THEN conjunct2] by (simp only:)
  also have "\<dots> = [pong_line @ [LF]]"
    by (simp only: stdout_without_diagnostics ping_run)
  finally show ?thesis
    using t h trim_broken_line by blast
qed

text \<open>
  Claim C9 as stated fails for lines that are JSON texts but no messages: the listener
  tests nothing but that \<^verbatim>\<open>JSON.parse\<close> returns. The line \<^verbatim>\<open>42\<close> reaches the router, where
  \<^verbatim>\<open>'id' in request\<close> raises, and the \<^verbatim>\<open>catch\<close> writes a response with the code -32603 and no
  \<^verbatim>\<open>id\<close>. On the line \<^verbatim>\<open>null\<close> the promise of \<^verbatim>\<open>handleRequest\<close> is rejected, and the line that
  follows is not served.
\<close>

theorem parsed_line_answered_counterexample:
  "trim number_line \<noteq> [] \<and> value_parse number_line = Some (JNum 42)
   \<and> stdout (fst (serve sample_statics value_parse [(number_line, provider_returns [])] initial_world))
       = [internal_error_line @ [LF]]
   \<and> trim null_line \<noteq> [] \<and> value_parse null_line = Some JNull
   \<and> serve sample_statics value_parse
        [(null_line, provider_returns []), (ping_line, provider_returns [])] initial_world
       = (initial_world,
          Some (JsError (''Cannot read properties of null (reading ''
                         @ [CHR 0x27] @ ''method'' @ [CHR 0x27] @ '')'')))"
proof -
  have 1: "num_str 42 = ''42''"
    by code_simp
  have 2: "num_str (- 32603) = ''-32603''"
    by code_simp
  have 3: "stdout (fst (serve sample_statics value_parse [(number_line, provider_returns [])] initial_world))
             = [internal_error_line @ [LF]]"
    by (simp add: on_line_def value_parse_def trim_def number_line_def js_whitespace_def
        handleRequest_def handleRequest_try_def Let_def initial_world_def console_error_def
        sendResponse_def response_json_def obj_def quote_def escape_char_def 1 2
        internal_error_line_def)
  have 4: "serve sample_statics value_parse
             [(null_line, provider_returns []), (ping_line, provider_returns [])] initial_world
           = (initial_world,
              Some (JsError (''Cannot read properties of null (reading ''
                             @ [CHR 0x27] @ ''method'' @ [CHR 0x27] @ '')'')))"
    by (simp add: on_line_def value_parse_def trim_def null_line_def number_line_def
        js_whitespace_def handleRequest_def)
  have "trim number_line \<noteq> [] \<and> value_parse number_line = Some (JNum 42)
        \<and> trim null_line \<noteq> [] \<and> value_parse null_line = Some JNull"
    by (simp add: trim_def number_line_def null_line_def js_whitespace_def value_parse_def)
  with 3 4 show ?thesis by blast
qed

subsection \<open>The vision filter (C10)\<close>

lemma vision_all: "filter (\<lambda>entry. ''function_calling'' \<in> set (features (snd entry))) GEMINI_MODELS = GEMINI_MODELS"
  by (simp add: GEMINI_MODELS_def)

text \<open>
  Claim C10. \<^verbatim>\<open>list_models\<close> with the filter \<^verbatim>\<open>vision\<close> selects all five models of the table,
  as the filter \<^verbatim>\<open>all\<close> does: every entry lists the feature \<^verbatim>\<open>function_calling\<close>. The two
  responses carry the same text and count and differ in the echoed filter only.
\<close>

theorem vision_filter_is_all:
  assumes "map_of kvs ''filter'' = Some (JStr ''vision'')"
    and "map_of kvs' ''filter'' = Some (JStr ''all'')"
  shows "listModels_models (FilterValue (JStr ''vision'')) = GEMINI_MODELS
       \<and> listModels_models (FilterValue (JStr ''all'')) = GEMINI_MODELS
       \<and> length GEMINI_MODELS = 5
       \<and> listModels i (Some (JObj kvs))
           = Response i (Result (JObj
               [(''content'', text_content (stringify2 0 (JArr (modelList (FilterValue (JStr ''all'')))))),
                (''metadata'', JObj [(''count'', JNum 5), (''filter'', JStr ''vision'')])]))
       \<and> listModels i (Some (JObj kvs'))
           = Response i (Result (JObj
               [(''content'', text_content (stringify2 0 (JArr (modelList (FilterValue (JStr ''all'')))))),
                (''metadata'', JObj [(''count'', JNum 5), (''filter'', JStr ''all'')])]))"
proof -
  have v: "listModels_models (FilterValue (JStr ''vision'')) = GEMINI_MODELS"
    by (simp add: listModels_models_def filter_accepts_def vision_all)
  have a: "listModels_models (FilterValue (JStr ''all'')) = GEMINI_MODELS"
    by (simp add: listModels_models_def)
  have n: "length GEMINI_MODELS = 5"
    by (simp add: GEMINI_MODELS_def)
  from v a have m: "modelList (FilterValue (JStr ''vision'')) = modelList (FilterValue (JStr ''all''))"
    by (simp add: modelList_def)
  have l: "length (modelList (FilterValue (JStr ''all''))) = 5"
    using a n by (simp add: modelList_def)
  from assms m l v a n show ?thesis
    by (simp add: listModels_def listModels_filter_def or_default_def Let_def obj_def)
qed

theorem vision_filter_is_all_witness:
  "map_of [(''filter'', JStr ''vision'')] ''filter'' = Some (JStr ''vision'')
   \<and> map_of [(''filter'', JStr ''all'')] ''filter'' = Some (JStr ''all'')
   \<and> listModels_models (FilterValue (JStr ''vision'')) = GEMINI_MODELS
   \<and> listModels_models (FilterValue (JStr ''all'')) = GEMINI_MODELS
   \<and> length GEMINI_MODELS = 5
   \<and> listModels (Some (JNum 30)) (Some (JObj [(''filter'', JStr ''vision'')]))
           = Response (Some (JNum 30)) (Result (JObj
               [(''content'', text_content (stringify2 0 (JArr (modelList (FilterValue (JStr ''all'')))))),
                (''metadata'', JObj [(''count'', JNum 5), (''filter'', JStr ''vision'')])]))
   \<and> listModels (Some (JNum 30)) (Some (JObj [(''filter'', JStr ''all'')]))
           = Response (Some (JNum 30)) (Result (JObj
               [(''content'', text_content (stringify2 0 (JArr (modelList (FilterValue (JStr ''all'')))))),
                (''metadata'', JObj [(''count'', JNum 5), (''filter'', JStr ''all'')])]))"
proof -
  have 1: "map_of [(''filter'', JStr ''vision'')] ''filter'' = Some (JStr ''vision'')"
    and 2: "map_of [(''filter'', JStr ''all'')] ''filter'' = Some (JStr ''all'')"
    by simp_all
  from vision_filter_is_all [OF 1 2, of "Some (JNum 30)"] 1 2 show ?thesis
    by blast
qed

end
